theory Spec2Isabelle
  imports Main "HOL-Library.Sublist" "HOL-Library.Multiset"
begin

section \<open>Admin panel scripts: the embedding\<close>

text \<open>
  The repository is a set of browser scripts. Each manager object is modelled by a record
  of the fields the verified methods read and write, \<open>localStorage\<close> by a map from keys to
  values, a network response by a datatype of its outcomes, and an exception by the left
  injection of a sum. A method that mutates \<open>this\<close> takes the state and returns the new one.
\<close>

subsection \<open>JavaScript values and string helpers\<close>

text \<open>
  A string-valued property that may be missing is a \<open>string option\<close>: \<open>None\<close> stands for
  \<open>undefined\<close> and \<open>null\<close>. A string is truthy when it is not empty.
\<close>

definition truthy :: "string option \<Rightarrow> bool" where
  "truthy v = (case v of None \<Rightarrow> False | Some s \<Rightarrow> s \<noteq> [])"

text \<open>\<open>a || b\<close> on optional strings: the left operand when it is truthy, else the right one.\<close>

definition js_or :: "string option \<Rightarrow> string option \<Rightarrow> string option" where
  "js_or a b = (if truthy a then a else b)"

text \<open>\<open>a || 'literal'\<close>: the chain ends in a string.\<close>

definition or_default :: "string option \<Rightarrow> string \<Rightarrow> string" where
  "or_default a d = (case a of None \<Rightarrow> d | Some s \<Rightarrow> if s \<noteq> [] then s else d)"

text \<open>
  A JavaScript number is modelled by an \<open>int\<close>: the numbers of these scripts (team numbers,
  time values in milliseconds, counts, statuses) are integers, and the model covers them
  where a double is exact, below \<open>2^53\<close> in absolute value. Fractions and larger numbers
  are outside the model.

  \<open>String(n)\<close> and \<open>`${n}`\<close> for an integer: its decimal digits.
\<close>

fun show_nat :: "nat \<Rightarrow> string" where
  "show_nat n = (if n < 10 then [char_of (48 + n)]
                 else show_nat (n div 10) @ [char_of (48 + n mod 10)])"

declare show_nat.simps [simp del]

definition show_int :: "int \<Rightarrow> string" where
  "show_int i = (if i < 0 then CHR ''-'' # show_nat (nat (- i)) else show_nat (nat i))"

subsection \<open>String operations used by the filters\<close>

text \<open>
  A string is a list of code units below 256, read as Latin-1 (the first 256 code points of
  Unicode); text with other characters is outside the model.

  \<open>s.toLowerCase()\<close>: the upper-case letters of that range are \<open>A\<close> to \<open>Z\<close> and \<open>0xC0\<close> to
  \<open>0xDE\<close> without the multiplication sign \<open>0xD7\<close>; each has its lower-case letter 32 code
  units above. Every other code unit is kept.
\<close>

definition lower_char :: "char \<Rightarrow> char" where
  "lower_char c =
     (let n = (of_char c :: nat)
      in if (65 \<le> n \<and> n \<le> 90) \<or> (192 \<le> n \<and> n \<le> 222 \<and> n \<noteq> 215)
         then char_of (n + 32) else c)"

definition toLowerCase :: "string \<Rightarrow> string" where
  "toLowerCase s = map lower_char s"

text \<open>\<open>s.startsWith(p)\<close> and \<open>s.includes(p)\<close>.\<close>

fun startsWith :: "string \<Rightarrow> string \<Rightarrow> bool" where
  "startsWith s [] = True"
| "startsWith [] (p # ps) = False"
| "startsWith (c # cs) (p # ps) = (c = p \<and> startsWith cs ps)"

fun js_includes :: "string \<Rightarrow> string \<Rightarrow> bool" where
  "js_includes [] p = (p = [])"
| "js_includes (c # cs) p = (startsWith (c # cs) p \<or> js_includes cs p)"

text \<open>
  \<open>s.trim()\<close>: leading and trailing white space and line terminators removed. Below 256
  these are the space, the tab, the line feed, the vertical tab, the form feed, the
  carriage return and the no-break space \<open>0xA0\<close>.
\<close>

definition is_space :: "char \<Rightarrow> bool" where
  "is_space c = (c = CHR '' '' \<or> c = CHR 0x09 \<or> c = CHR 0x0A \<or> c = CHR 0x0B
                 \<or> c = CHR 0x0C \<or> c = CHR 0x0D \<or> c = CHR 0xA0)"

definition trim :: "string \<Rightarrow> string" where
  "trim s = rev (dropWhile is_space (rev (dropWhile is_space s)))"

text \<open>\<open>a < b\<close> on two strings: lexicographic on the code units.\<close>

fun str_lt :: "string \<Rightarrow> string \<Rightarrow> bool" where
  "str_lt [] [] = False"
| "str_lt [] (y # ys) = True"
| "str_lt (x # xs) [] = False"
| "str_lt (x # xs) (y # ys) = ((of_char x :: nat) < of_char y \<or> (x = y \<and> str_lt xs ys))"

text \<open>
  The values the sort comparators meet: a missing property, a number, the time value of an
  invalid \<open>Date\<close> (\<open>NaN\<close>), or a string.
\<close>

datatype jsval = Undefined | Num int | NaN | Str string

text \<open>
  \<open>a < b\<close>. Every comparison with \<open>undefined\<close> or \<open>NaN\<close> is false. A field gives either
  numbers or strings, never both, so no comparator here compares a number with a string;
  that case is set to false.
\<close>

fun js_lt :: "jsval \<Rightarrow> jsval \<Rightarrow> bool" where
  "js_lt (Num a) (Num b) = (a < b)"
| "js_lt (Str a) (Str b) = str_lt a b"
| "js_lt _ _ = False"

text \<open>
  \<open>Array.prototype.sort(cmp)\<close>: a stable sort. \<open>cmp a b \<le> 0\<close> keeps \<open>a\<close> before \<open>b\<close>.
  For a comparator that is consistent on the array (a total preorder) every stable sort
  gives this result, and the model is exact. For an inconsistent one, such as a comparator
  that answers 0 whenever one side is an invalid date, the language leaves the order to the
  engine: the model is one stable insertion sort, which inserts from the right, and an
  engine may order the same array differently (its insertion sort may run from the left, or
  it may merge). On such an array a result of the model stands for the engine only where
  that is checked for the array at hand.
\<close>

fun insert_by :: "('a \<Rightarrow> 'a \<Rightarrow> int) \<Rightarrow> 'a \<Rightarrow> 'a list \<Rightarrow> 'a list" where
  "insert_by cmp x [] = [x]"
| "insert_by cmp x (y # ys) = (if cmp x y \<le> 0 then x # y # ys else y # insert_by cmp x ys)"

definition js_sort :: "('a \<Rightarrow> 'a \<Rightarrow> int) \<Rightarrow> 'a list \<Rightarrow> 'a list" where
  "js_sort cmp xs = foldr (insert_by cmp) xs []"

text \<open>\<open>xs.slice(start, end)\<close>: a negative index counts from the end, both are clamped.\<close>

definition js_slice :: "int \<Rightarrow> int \<Rightarrow> 'a list \<Rightarrow> 'a list" where
  "js_slice start end xs =
     (let n = int (length xs);
          k = (if start < 0 then max (n + start) 0 else min start n);
          e = (if end < 0 then max (n + end) 0 else min end n)
      in take (nat (e - k)) (drop (nat k) xs))"

subsection \<open>notifications.js: NotificationManager\<close>

text \<open>
  What \<open>localStorage.getItem(STORAGE_KEY)\<close> holds under the key \<open>admin_notifications\<close>:
  nothing (\<open>None\<close>), the empty string, a text that is not JSON, JSON that is not an array,
  or a JSON array. The first two are read as \<open>'[]'\<close> by \<open>getItem(...) || '[]'\<close>.
\<close>

datatype 'a stored = EmptyText | Unparsable | NonArray | Array "'a list"

text \<open>
  The last statement of the \<open>try\<close> block, \<open>localStorage.setItem(KEY, JSON.stringify(stored))\<close>,
  either writes the item or throws (the quota is exceeded, the storage is denied, a message
  does not serialise).
\<close>

datatype write_outcome = WriteOk | WriteThrows

definition MAX_STORED_NOTIFICATIONS :: nat where
  "MAX_STORED_NOTIFICATIONS = 5"

text \<open>\<open>xs.slice(-k)\<close> for \<open>k > 0\<close>: the last \<open>k\<close> elements, all of them when there are fewer.\<close>

definition slice_last :: "nat \<Rightarrow> 'a list \<Rightarrow> 'a list" where
  "slice_last k xs = drop (length xs - k) xs"

text \<open>
  \<open>storeNotification\<close>: the body runs in a \<open>try\<close> whose \<open>catch\<close> only logs, so a stored value
  that does not parse (\<open>JSON.parse\<close> throws) or is not an array (\<open>stored.push\<close> is not a
  function), and a write that throws, leave the storage as it was.
\<close>

definition storeNotification ::
  "write_outcome \<Rightarrow> 'a \<Rightarrow> 'a stored option \<Rightarrow> 'a stored option" where
  "storeNotification w notification slot =
     (case (case slot of None \<Rightarrow> Array [] | Some EmptyText \<Rightarrow> Array [] | Some v \<Rightarrow> v) of
        EmptyText \<Rightarrow> slot
      | Unparsable \<Rightarrow> slot
      | NonArray \<Rightarrow> slot
      | Array stored \<Rightarrow>
          (case w of
             WriteThrows \<Rightarrow> slot
           | WriteOk \<Rightarrow>
               Some (Array ((if length stored \<ge> MAX_STORED_NOTIFICATIONS
                             then slice_last (MAX_STORED_NOTIFICATIONS - 1) stored
                             else stored) @ [notification]))))"

text \<open>A sequence of calls, oldest first, each with the outcome of its write.\<close>

fun store_all :: "'a stored option \<Rightarrow> (write_outcome \<times> 'a) list \<Rightarrow> 'a stored option" where
  "store_all slot [] = slot"
| "store_all slot ((w, n) # calls) = store_all (storeNotification w n slot) calls"

text \<open>
  The list the storage holds: empty when the key is absent or holds the empty string,
  none when the item is not a JSON array. An entry stands for the JSON text of a
  notification, which is what the storage keeps.
\<close>

fun stored_list :: "'a stored option \<Rightarrow> 'a list option" where
  "stored_list None = Some []"
| "stored_list (Some EmptyText) = Some []"
| "stored_list (Some (Array xs)) = Some xs"
| "stored_list (Some Unparsable) = None"
| "stored_list (Some NonArray) = None"

subsection \<open>Dashboard.js: Dashboard.safeFetch\<close>

text \<open>
  A response of \<open>fetch\<close>: its status line, and what reading its body gives. \<open>response.json()\<close>
  and \<open>response.text()\<close> return promises that may reject (a body that is not JSON, a stream
  that fails): \<open>Inl\<close> carries the message of the error thrown at the \<open>await\<close>.
\<close>

record 'd response =
  http_status :: nat
  http_statusText :: string
  json_body :: "string + 'd"
  text_body :: "string + string"

text \<open>\<open>await fetch(url, ...)\<close> either throws (network failure, CORS) or gives a response.\<close>

datatype 'd fetch_outcome = Rejected string | Resolved "'d response"

text \<open>\<open>response.ok\<close> is defined by the Fetch standard as a status in the range 200 to 299.\<close>

definition response_ok :: "'d response \<Rightarrow> bool" where
  "response_ok r = (200 \<le> http_status r \<and> http_status r \<le> 299)"

text \<open>The object \<open>safeFetch\<close> returns; a property that the literal does not set is \<open>None\<close>.\<close>

record 'd fetch_result =
  success :: bool
  data :: "'d option"
  error :: "string option"
  message :: "string option"

text \<open>The body of the \<open>try\<close> block: \<open>Inl msg\<close> is an error thrown inside it.\<close>

definition safeFetch_try :: "'d fetch_outcome \<Rightarrow> string + 'd fetch_result" where
  "safeFetch_try outcome =
     (case outcome of
        Rejected msg \<Rightarrow> Inl msg
      | Resolved r \<Rightarrow>
          if http_status r = 429 then
            Inr \<lparr>success = False, data = None, error = Some ''rate_limit'',
                 message = Some ''Rate limited''\<rparr>
          else if response_ok r then
            (case json_body r of
               Inl msg \<Rightarrow> Inl msg
             | Inr d \<Rightarrow> Inr \<lparr>success = True, data = Some d, error = None, message = None\<rparr>)
          else
            (case text_body r of
               Inl msg \<Rightarrow> Inl msg
             | Inr errorText \<Rightarrow>
                 Inr \<lparr>success = False, data = None, error = Some ''api_error'',
                      message = Some (''HTTP '' @ show_nat (http_status r) @ '': ''
                                      @ http_statusText r)\<rparr>))"

text \<open>
  \<open>safeFetch\<close> with its \<open>catch\<close>: \<open>Inl\<close> would be an exception that leaves the method,
  \<open>Inr\<close> is the object it returns.
\<close>

definition safeFetch :: "'d fetch_outcome \<Rightarrow> string + 'd fetch_result" where
  "safeFetch outcome =
     (case safeFetch_try outcome of
        Inl msg \<Rightarrow>
          Inr \<lparr>success = False, data = None, error = Some ''network_error'',
               message = Some msg\<rparr>
      | Inr res \<Rightarrow> Inr res)"

subsection \<open>user-info-fix.js and updateUserDisplay\<close>

text \<open>\<open>localStorage\<close>: \<open>getItem\<close> gives \<open>null\<close> for a key that is not stored.\<close>

type_synonym storage = "string \<rightharpoonup> string"

definition getItem :: "storage \<Rightarrow> string \<Rightarrow> string option" where
  "getItem ls k = ls k"

definition setItem :: "storage \<Rightarrow> string \<Rightarrow> string \<Rightarrow> storage" where
  "setItem ls k v = ls(k \<mapsto> v)"

definition removeItem :: "storage \<Rightarrow> string \<Rightarrow> storage" where
  "removeItem ls k = ls(k := None)"

text \<open>\<open>s.includes('@')\<close> and \<open>s.split('@')[0]\<close>.\<close>

definition includes_at :: "string \<Rightarrow> bool" where
  "includes_at s = (CHR ''@'' \<in> set s)"

definition before_at :: "string \<Rightarrow> string" where
  "before_at s = takeWhile (\<lambda>c. c \<noteq> CHR ''@'') s"

text \<open>What is written into the three sidebar elements.\<close>

record user_display =
  sidebarUserName :: string
  sidebarUserRole :: string
  sidebarUserEmail :: string

text \<open>
  \<open>loadUserInfoWithFallbacks\<close>: the values passed to \<open>updateUserInfoElements\<close>. Nothing in
  the \<open>try\<close> block throws on strings, so the \<open>catch\<close> branch is not reached.
\<close>

definition loadUserInfoWithFallbacks :: "storage \<Rightarrow> user_display" where
  "loadUserInfoWithFallbacks ls =
     (let username0 = js_or (js_or (js_or (getItem ls ''username'') (getItem ls ''userEmail''))
                                   (getItem ls ''user'')) (getItem ls ''adminUsername'');
          userRole0 = or_default (js_or (js_or (getItem ls ''userRole'') (getItem ls ''role''))
                                        (getItem ls ''adminRole'')) ''Administrator'';
          userEmail0 = js_or (js_or (getItem ls ''userEmail'') (getItem ls ''email''))
                             (getItem ls ''username'');
          cleanup = (case username0 of None \<Rightarrow> False | Some u \<Rightarrow> u \<noteq> [] \<and> includes_at u);
          userEmail1 = (if cleanup \<and> \<not> truthy userEmail0 then username0 else userEmail0);
          username1 = (if cleanup then map_option before_at username0 else username0);
          username2 = or_default username1 ''Admin User'';
          userEmail2 = (if \<not> truthy userEmail1
                        then (if includes_at username2 then username2
                              else ''admin@teamsheldon.tech'')
                        else or_default userEmail1 []);
          userRole2 = (if userRole0 = [] then ''Administrator'' else userRole0)
      in \<lparr>sidebarUserName = username2, sidebarUserRole = userRole2,
           sidebarUserEmail = userEmail2\<rparr>)"

text \<open>The profile object \<open>updateUserDisplay\<close> receives (from storage or the profile endpoint).\<close>

record userInfo =
  info_username :: "string option"
  info_name :: "string option"
  info_role :: "string option"
  info_userRole :: "string option"
  info_email :: "string option"
  info_userEmail :: "string option"

text \<open>\<open>ActivityLogsManager.updateUserDisplay\<close> (the same code is in \<open>ScoutingManager\<close>).\<close>

definition updateUserDisplay :: "userInfo \<Rightarrow> user_display" where
  "updateUserDisplay userInfo =
     \<lparr>sidebarUserName = or_default (js_or (info_username userInfo) (info_name userInfo))
                          ''Admin User'',
      sidebarUserRole = or_default (js_or (info_role userInfo) (info_userRole userInfo))
                          ''Administrator'',
      sidebarUserEmail = or_default (js_or (info_email userInfo) (info_userEmail userInfo))
                           ''admin@teamsheldon.tech''\<rparr>"

text \<open>
  First-non-empty selection as the specification words it: the first value of the chain
  that is present and not empty, else the default.
\<close>

fun first_non_empty :: "string option list \<Rightarrow> string \<Rightarrow> string" where
  "first_non_empty [] d = d"
| "first_non_empty (None # vs) d = first_non_empty vs d"
| "first_non_empty (Some s # vs) d = (if s \<noteq> [] then s else first_non_empty vs d)"


subsection \<open>Scouting.js: ScoutingManager\<close>

text \<open>
  A team as the API returns it. Every property is optional; the team number is a number,
  the others are strings.
\<close>

record team =
  team_teamNumber :: "int option"
  team_number :: "int option"
  team_teamName :: "string option"
  team_name :: "string option"
  team_scoutName :: "string option"
  team_scout :: "string option"
  team_scoutedBy :: "string option"
  team_createdBy :: "string option"
  team_reliability :: "string option"
  team_date :: "string option"
  team_createdAt :: "string option"
  team_timestamp :: "string option"

text \<open>\<open>a || b\<close> on optional numbers: zero is falsy.\<close>

definition num_or :: "int option \<Rightarrow> int option \<Rightarrow> int option" where
  "num_or a b = (case a of None \<Rightarrow> b | Some n \<Rightarrow> if n \<noteq> 0 then a else b)"

text \<open>\<open>this.currentSort\<close>.\<close>

record sort_state =
  sort_field :: string
  sort_direction :: string

text \<open>
  The \<open>value\<close> of the four filter controls; \<open>None\<close> when the element is not in the page
  (\<open>document.getElementById(id)?.value\<close> is then \<open>undefined\<close>).
\<close>

record team_filters =
  teamSearch :: "string option"
  reliabilityFilter :: "string option"
  scoutFilter :: "string option"
  dateFilter :: "string option"

text \<open>
  What \<open>renderTeams\<close> puts into the grid element: the placeholder, or one card for each
  team of the page shown.
\<close>

datatype grid = NoTeamsFound | Cards "team list"

text \<open>
  The manager's fields, and the two elements \<open>renderTeams\<close> writes: \<open>None\<close> is an element
  that is not in the page.
\<close>

record scouting =
  allTeams :: "team list"
  filteredTeams :: "team list"
  currentSort :: sort_state
  currentPage :: int
  teamsPerPage :: int
  teamsGrid :: "grid option"
  teamsCount :: "string option"

definition setElementText :: "string option \<Rightarrow> string \<Rightarrow> string option" where
  "setElementText el text = (case el of None \<Rightarrow> None | Some old \<Rightarrow> Some text)"

definition getFieldValue :: "team \<Rightarrow> string \<Rightarrow> jsval" where
  "getFieldValue team field =
     (if field = ''teamNumber'' then
        Num (case num_or (team_teamNumber team) (team_number team) of
               None \<Rightarrow> 0 | Some n \<Rightarrow> n)
      else if field = ''teamName'' then
        Str (or_default (js_or (team_teamName team) (team_name team)) [])
      else if field = ''scoutName'' then
        Str (or_default (js_or (js_or (js_or (team_scoutName team) (team_scout team))
                                      (team_scoutedBy team)) (team_createdBy team)) [])
      else if field = ''date'' then
        Str (or_default (js_or (js_or (team_date team) (team_createdAt team))
                               (team_timestamp team)) [])
      else if field = ''reliability'' then
        Str (or_default (team_reliability team) [])
      else Str [])"

definition renderTeams :: "scouting \<Rightarrow> scouting" where
  "renderTeams s =
     (case teamsGrid s of
        None \<Rightarrow> s
      | Some old \<Rightarrow>
          if length (filteredTeams s) = 0 then
            s\<lparr>teamsGrid := Some NoTeamsFound,
              teamsCount := setElementText (teamsCount s) ''0 teams''\<rparr>
          else
            (let start = (currentPage s - 1) * teamsPerPage s;
                 end = start + teamsPerPage s;
                 teamsToShow = js_slice start end (filteredTeams s)
             in s\<lparr>teamsGrid := Some (Cards teamsToShow),
                   teamsCount := setElementText (teamsCount s)
                                   (show_nat (length (filteredTeams s)) @ '' teams'')\<rparr>))"

text \<open>The comparator of \<open>sortTeams\<close>, with \<open>dir\<close> being 1 or -1.\<close>

definition team_cmp :: "string \<Rightarrow> int \<Rightarrow> team \<Rightarrow> team \<Rightarrow> int" where
  "team_cmp field dir a b =
     (let va = getFieldValue a field; vb = getFieldValue b field
      in if js_lt va vb then -1 * dir else if js_lt vb va then 1 * dir else 0)"

text \<open>
  \<open>sortTeams(field, updateDisplay)\<close>. \<open>updatePaginationInfo\<close> writes only the pagination
  elements, which the record does not hold.
\<close>

definition sortTeams :: "string option \<Rightarrow> bool \<Rightarrow> scouting \<Rightarrow> scouting" where
  "sortTeams field updateDisplay s =
     (if \<not> truthy field then s
      else
        (let f = or_default field [];
             cs = (if sort_field (currentSort s) = f
                   then (currentSort s)\<lparr>sort_direction :=
                          (if sort_direction (currentSort s) = ''asc'' then ''desc''
                           else ''asc'')\<rparr>
                   else \<lparr>sort_field = f, sort_direction = ''asc''\<rparr>);
             dir = (if sort_direction cs = ''asc'' then 1 else -1);
             s1 = s\<lparr>currentSort := cs,
                     filteredTeams := js_sort (team_cmp f dir) (filteredTeams s)\<rparr>
         in if updateDisplay then renderTeams (s1\<lparr>currentPage := 1\<rparr>) else s1))"

text \<open>The callback of \<open>this.allTeams.filter\<close> in \<open>applyFilters\<close>.\<close>

definition team_passes :: "team_filters \<Rightarrow> team \<Rightarrow> bool" where
  "team_passes c team =
     (let search = or_default (map_option toLowerCase (teamSearch c)) [];
          reliability = reliabilityFilter c;
          scout = map_option toLowerCase (scoutFilter c);
          date = dateFilter c;
          teamNumber = toLowerCase (case num_or (team_teamNumber team) (team_number team) of
                                      None \<Rightarrow> [] | Some n \<Rightarrow> if n \<noteq> 0 then show_int n else []);
          teamName = toLowerCase (or_default (js_or (team_teamName team) (team_name team)) []);
          scoutName = toLowerCase (or_default
                        (js_or (js_or (js_or (team_scoutName team) (team_scout team))
                                      (team_scoutedBy team)) (team_createdBy team)) []);
          reliabilityVal = team_reliability team;
          dateVal = js_or (js_or (team_date team) (team_createdAt team)) (team_timestamp team)
      in if search \<noteq> [] \<and> \<not> (js_includes teamNumber search \<or> js_includes teamName search
                                \<or> js_includes scoutName search) then False
         else if truthy reliability \<and> reliabilityVal \<noteq> reliability then False
         else if truthy scout \<and> Some scoutName \<noteq> scout then False
         else if truthy date \<and> truthy dateVal
                 \<and> \<not> startsWith (or_default dateVal []) (or_default date []) then False
         else True)"

text \<open>\<open>ScoutingManager.applyFilters\<close>.\<close>

definition Scouting_applyFilters :: "team_filters \<Rightarrow> scouting \<Rightarrow> scouting" where
  "Scouting_applyFilters c s =
     (let s1 = s\<lparr>filteredTeams := filter (team_passes c) (allTeams s)\<rparr>;
          s2 = sortTeams (Some (sort_field (currentSort s1))) False s1
      in renderTeams (s2\<lparr>currentPage := 1\<rparr>))"

text \<open>
  The outcome of \<open>fetch(API_BASE + '/api/teams')\<close> in \<open>loadTeams\<close>: the request throws, the
  response is not ok, its body is not JSON, it is JSON but no array, or it is an array.
\<close>

datatype teams_response =
  TeamsFetchFailed | TeamsNotOk nat | TeamsBadJson | TeamsNotArray | TeamsArray "team list"

text \<open>
  \<open>loadTeams\<close>: the \<open>finally\<close> block runs \<open>populateScoutsFilter\<close>, which rebuilds the options
  of the scout filter (its value is then the first option, the empty string), then
  \<open>applyFilters\<close>, then \<open>updateStats\<close>, which writes only statistics elements.
\<close>

definition loadTeams :: "team_filters \<Rightarrow> teams_response \<Rightarrow> scouting \<Rightarrow> scouting" where
  "loadTeams c resp s =
     (let s1 = s\<lparr>allTeams := (case resp of TeamsArray ts \<Rightarrow> ts | _ \<Rightarrow> [])\<rparr>;
          c1 = c\<lparr>scoutFilter := setElementText (scoutFilter c) []\<rparr>
      in Scouting_applyFilters c1 s1)"

text \<open>
  The manager as its constructor leaves it, in a page that has the grid and the count
  elements (both still empty).
\<close>

definition ScoutingManager_new :: scouting where
  "ScoutingManager_new =
     \<lparr>allTeams = [], filteredTeams = [],
      currentSort = \<lparr>sort_field = ''teamNumber'', sort_direction = ''asc''\<rparr>,
      currentPage = 1, teamsPerPage = 24, teamsGrid = Some (Cards []), teamsCount = Some []\<rparr>"

text \<open>A team that has a number and nothing else; filter controls that are all empty.\<close>

definition team_numbered :: "int \<Rightarrow> team" where
  "team_numbered n =
     \<lparr>team_teamNumber = Some n, team_number = None, team_teamName = None, team_name = None,
      team_scoutName = None, team_scout = None, team_scoutedBy = None, team_createdBy = None,
      team_reliability = None, team_date = None, team_createdAt = None,
      team_timestamp = None\<rparr>"

definition no_team_filters :: team_filters where
  "no_team_filters = \<lparr>teamSearch = Some [], reliabilityFilter = Some [], scoutFilter = Some [],
     dateFilter = Some []\<rparr>"

subsection \<open>Activity.js: ActivityLogsManager\<close>

text \<open>
  A \<open>Date\<close> is modelled by its time value in milliseconds; \<open>None\<close> is an invalid date, whose
  time value is \<open>NaN\<close>. Parsing a date text and the time zone are not modelled: a record
  holds the date its text denotes.
\<close>

type_synonym js_date = "int option"

text \<open>\<open>a >= b\<close> and \<open>a < b\<close> on dates: false when either is invalid.\<close>

definition date_ge :: "js_date \<Rightarrow> js_date \<Rightarrow> bool" where
  "date_ge a b = (case a of None \<Rightarrow> False
                  | Some x \<Rightarrow> (case b of None \<Rightarrow> False | Some y \<Rightarrow> x \<ge> y))"

definition date_lt :: "js_date \<Rightarrow> js_date \<Rightarrow> bool" where
  "date_lt a b = (case a of None \<Rightarrow> False
                  | Some x \<Rightarrow> (case b of None \<Rightarrow> False | Some y \<Rightarrow> x < y))"

text \<open>
  An element of \<open>allLogs\<close>, restricted to the properties the table shows, filters and sorts
  on. \<open>log_timestamp\<close> is \<open>new Date(log.timestamp)\<close>. The IP address may be \<open>undefined\<close>:
  \<open>loadActivityLogs\<close> stores \<open>entry.ip || entry.ipAddress\<close> with no default.
\<close>

record log =
  log_id :: string
  log_timestamp :: js_date
  log_ipAddress :: "string option"
  log_username :: string
  log_status :: string

text \<open>
  The manager's fields. The table, the counters and the pagination elements that
  \<open>displayLogs\<close>, \<open>updateStatistics\<close> and \<open>updatePagination\<close> write are taken to be in the
  page and are not part of the record; the table body and the count text are modelled
  apart, as \<open>logs_page\<close> below.
\<close>

record activity =
  allLogs :: "log list"
  filteredLogs :: "log list"
  totalLogs :: nat
  logs_currentPage :: int
  logsPerPage :: int
  logs_currentSort :: sort_state

text \<open>
  \<open>a[field]\<close> in the comparator of \<open>sortLogs\<close>, after \<open>new Date(...)\<close> when the field is
  \<open>timestamp\<close>. A property the record does not have reads as \<open>undefined\<close>.
\<close>

definition log_field :: "log \<Rightarrow> string \<Rightarrow> jsval" where
  "log_field a field =
     (if field = ''timestamp'' then (case log_timestamp a of None \<Rightarrow> NaN | Some t \<Rightarrow> Num t)
      else if field = ''ipAddress'' then
        (case log_ipAddress a of None \<Rightarrow> Undefined | Some ip \<Rightarrow> Str ip)
      else if field = ''username'' then Str (log_username a)
      else if field = ''status'' then Str (log_status a)
      else if field = ''id'' then Str (log_id a)
      else Undefined)"

definition log_cmp :: "string \<Rightarrow> string \<Rightarrow> log \<Rightarrow> log \<Rightarrow> int" where
  "log_cmp field direction a b =
     (let aVal = log_field a field; bVal = log_field b field
      in if js_lt aVal bVal then (if direction = ''asc'' then -1 else 1)
         else if js_lt bVal aVal then (if direction = ''asc'' then 1 else -1)
         else 0)"

text \<open>
  \<open>sortLogs(field, direction = null, updateDisplay = true)\<close>. With \<open>updateDisplay\<close> it
  also redraws the table and the sort icons, which are not part of the record.
\<close>

definition sortLogs :: "string \<Rightarrow> string option \<Rightarrow> bool \<Rightarrow> activity \<Rightarrow> activity" where
  "sortLogs field direction updateDisplay s =
     (let direction1 =
            (case direction of
               None \<Rightarrow>
                 if sort_field (logs_currentSort s) = field
                 then (if sort_direction (logs_currentSort s) = ''asc'' then ''desc''
                       else ''asc'')
                 else ''desc''
             | Some d \<Rightarrow> d)
      in s\<lparr>logs_currentSort := \<lparr>sort_field = field, sort_direction = direction1\<rparr>,
            filteredLogs := js_sort (log_cmp field direction1) (filteredLogs s)\<rparr>)"

text \<open>
  The three filter controls. \<open>lf_date\<close> is \<open>None\<close> when the date control is empty or
  absent, else the \<open>filterDate\<close> that \<open>new Date(dateFilter)\<close> followed by
  \<open>setHours(0, 0, 0, 0)\<close> gives: the start of the selected day. The other two hold the
  \<open>value\<close> of the control, \<open>None\<close> when the element is absent.
\<close>

record log_filters =
  lf_date :: "js_date option"
  lf_ipAddress :: "string option"
  lf_status :: "string option"

definition day_ms :: int where
  "day_ms = 24 * 60 * 60 * 1000"

text \<open>What the code can throw where the model follows it.\<close>

datatype js_error = TypeError | Error string

text \<open>
  The IP filter: \<open>log.ipAddress.toLowerCase()\<close> throws a \<open>TypeError\<close> at the first log
  whose IP address is \<open>undefined\<close>.
\<close>

fun filter_ip :: "string \<Rightarrow> log list \<Rightarrow> js_error + log list" where
  "filter_ip ipFilter [] = Inr []"
| "filter_ip ipFilter (l # ls) =
     (case log_ipAddress l of
        None \<Rightarrow> Inl TypeError
      | Some ip \<Rightarrow>
          (case filter_ip ipFilter ls of
             Inl e \<Rightarrow> Inl e
           | Inr rest \<Rightarrow>
               Inr (if js_includes (toLowerCase ip) (toLowerCase ipFilter) then l # rest
                    else rest)))"

text \<open>\<open>ActivityLogsManager.applyFilters\<close>: \<open>Inl\<close> is the exception that leaves it.\<close>

definition Activity_applyFilters :: "log_filters \<Rightarrow> activity \<Rightarrow> js_error + activity" where
  "Activity_applyFilters c s =
     (let filtered0 = allLogs s;
          filtered1 =
            (case lf_date c of
               None \<Rightarrow> filtered0
             | Some filterDate \<Rightarrow>
                 (let nextDay = map_option (\<lambda>t. t + day_ms) filterDate
                  in filter (\<lambda>l. date_ge (log_timestamp l) filterDate
                                   \<and> date_lt (log_timestamp l) nextDay) filtered0));
          ipFilter = map_option trim (lf_ipAddress c);
          filtered2 = (if truthy ipFilter then filter_ip (or_default ipFilter []) filtered1
                       else Inr filtered1)
      in case filtered2 of
           Inl e \<Rightarrow> Inl e
         | Inr f2 \<Rightarrow>
             (let statusFilter = lf_status c;
                  filtered3 = (if truthy statusFilter
                               then filter (\<lambda>l. Some (log_status l) = statusFilter) f2
                               else f2);
                  s1 = s\<lparr>filteredLogs := filtered3, totalLogs := length filtered3,
                          logs_currentPage := 1\<rparr>
              in Inr (sortLogs (sort_field (logs_currentSort s1))
                        (Some (sort_direction (logs_currentSort s1))) False s1)))"

text \<open>
  The filter as the specification words it: a log satisfies every active filter when it
  lies within the selected day, when its IP address contains the (trimmed) text of the IP
  control, letter case ignored, and when its status equals the selection.
\<close>

definition within_day :: "js_date \<Rightarrow> js_date \<Rightarrow> bool" where
  "within_day dayStart t =
     (case dayStart of None \<Rightarrow> False
      | Some d \<Rightarrow> (case t of None \<Rightarrow> False | Some x \<Rightarrow> d \<le> x \<and> x < d + day_ms))"

definition log_satisfies :: "log_filters \<Rightarrow> log \<Rightarrow> bool" where
  "log_satisfies c l =
     ((case lf_date c of None \<Rightarrow> True | Some d \<Rightarrow> within_day d (log_timestamp l))
      \<and> (case lf_ipAddress c of None \<Rightarrow> True
          | Some v \<Rightarrow>
              if trim v = [] then True
              else (case log_ipAddress l of None \<Rightarrow> False
                    | Some ip \<Rightarrow> js_includes (toLowerCase ip) (toLowerCase (trim v))))
      \<and> (case lf_status c of None \<Rightarrow> True
          | Some v \<Rightarrow> if v = [] then True else log_status l = v))"

text \<open>
  An entry of the login history as \<open>/api/login-history\<close> returns it, and the log that the
  mapping in \<open>loadActivityLogs\<close> makes of it (the properties of \<open>log\<close> only).
\<close>

record history_entry =
  he_oid :: "string option"
  he_id :: "string option"
  he_timestamp :: js_date
  he_ip :: "string option"
  he_ipAddress :: "string option"
  he_username :: "string option"
  he_success :: "bool option"

definition convertSuccessToStatus :: "bool option \<Rightarrow> string" where
  "convertSuccessToStatus flag =
     (if flag = Some True then ''success''
      else if flag = Some False then ''failed''
      else ''unknown'')"

definition history_log :: "nat \<Rightarrow> history_entry \<Rightarrow> log" where
  "history_log index entry =
     \<lparr>log_id = or_default (js_or (he_oid entry) (he_id entry)) (''log_'' @ show_nat index),
      log_timestamp = he_timestamp entry,
      log_ipAddress = js_or (he_ip entry) (he_ipAddress entry),
      log_username = or_default (he_username entry) ''Unknown'',
      log_status = convertSuccessToStatus (he_success entry)\<rparr>"

text \<open>\<open>logsArray.map((entry, index) => ...)\<close>.\<close>

fun map_index :: "(nat \<Rightarrow> 'a \<Rightarrow> 'b) \<Rightarrow> nat \<Rightarrow> 'a list \<Rightarrow> 'b list" where
  "map_index f i [] = []"
| "map_index f i (x # xs) = f i x # map_index f (Suc i) xs"

text \<open>
  A value that orders: a number or a string. \<open>undefined\<close> and \<open>NaN\<close> compare false with
  everything.
\<close>

definition has_value :: "jsval \<Rightarrow> bool" where
  "has_value v = (case v of Num n \<Rightarrow> True | Str s \<Rightarrow> True | Undefined \<Rightarrow> False | NaN \<Rightarrow> False)"

text \<open>
  Ordered by a field: ascending is non-decreasing (no log is followed by one with a smaller
  value), any other direction is non-increasing, as the comparator of \<open>sortLogs\<close> reads
  the direction.
\<close>

definition ordered_by :: "string \<Rightarrow> string \<Rightarrow> log list \<Rightarrow> bool" where
  "ordered_by field direction xs =
     (if direction = ''asc''
      then sorted_wrt (\<lambda>a b. \<not> js_lt (log_field b field) (log_field a field)) xs
      else sorted_wrt (\<lambda>a b. \<not> js_lt (log_field a field) (log_field b field)) xs)"

text \<open>The manager as its constructor leaves it, and a log with a given date.\<close>

definition ActivityLogsManager_new :: activity where
  "ActivityLogsManager_new =
     \<lparr>allLogs = [], filteredLogs = [], totalLogs = 0, logs_currentPage = 1,
      logsPerPage = 50,
      logs_currentSort = \<lparr>sort_field = ''timestamp'', sort_direction = ''desc''\<rparr>\<rparr>"

definition log_at :: "js_date \<Rightarrow> log" where
  "log_at t = \<lparr>log_id = ''log_0'', log_timestamp = t, log_ipAddress = Some ''10.0.0.1'',
               log_username = ''admin'', log_status = ''success''\<rparr>"

text \<open>A request the code issues with \<open>fetch\<close>: its method and URL.\<close>

definition API_BASE :: string where
  "API_BASE = ''https://api.teamsheldon.tech''"

record request =
  req_method :: string
  req_url :: string

text \<open>The four requests of \<open>loadActivityLogs\<close> and \<open>checkAPIStatus\<close>.\<close>

definition dashboardRequest :: request where
  "dashboardRequest = \<lparr>req_method = ''GET'', req_url = API_BASE @ ''/api/admin/dashboard''\<rparr>"

definition historyRequest :: request where
  "historyRequest = \<lparr>req_method = ''GET'', req_url = API_BASE @ ''/api/login-history''\<rparr>"

definition healthRequest :: request where
  "healthRequest = \<lparr>req_method = ''GET'', req_url = API_BASE @ ''/health''\<rparr>"

definition testRequest :: request where
  "testRequest = \<lparr>req_method = ''HEAD'', req_url = API_BASE @ ''/api/login-history''\<rparr>"

text \<open>
  The table body and the count text of the activity page. The table body holds the
  loading row, the error row that \<open>showErrorState\<close> writes (the message and a Retry
  button), the \<open>No Activity Found\<close> row, or one row for each log of the page shown. The
  count text is a literal text or \<open>Showing a-b of n logs\<close>.

  The page is the activity page: it has the table body and the count element, and the
  elements that \<open>updateStatistics\<close> and \<open>updatePagination\<close> write, so that none of these
  methods throws. A page without them is outside the model.
\<close>

datatype table_view = LoadingRow | ErrorRow js_error | NoActivityRow | LogRows "log list"

datatype count_view = CountText string | CountShowing int int nat

record logs_page =
  logsTableBody :: table_view
  logsCount :: count_view

definition showLoadingState :: "logs_page \<Rightarrow> logs_page" where
  "showLoadingState page = \<lparr>logsTableBody = LoadingRow, logsCount = CountText ''Loading...''\<rparr>"

definition showErrorState :: "js_error \<Rightarrow> logs_page \<Rightarrow> logs_page" where
  "showErrorState e page =
     \<lparr>logsTableBody = ErrorRow e, logsCount = CountText ''Failed to load logs''\<rparr>"

text \<open>
  \<open>displayLogs\<close>: an empty page writes the \<open>No Activity Found\<close> row into the table body and
  returns before the count text is touched.
\<close>

definition displayLogs :: "activity \<Rightarrow> logs_page \<Rightarrow> logs_page" where
  "displayLogs s page =
     (let startIndex = (logs_currentPage s - 1) * logsPerPage s;
          endIndex = startIndex + logsPerPage s;
          pageData = js_slice startIndex endIndex (filteredLogs s)
      in if length pageData = 0 then page\<lparr>logsTableBody := NoActivityRow\<rparr>
         else \<lparr>logsTableBody = LogRows pageData,
               logsCount = CountShowing (startIndex + 1) (min endIndex (int (totalLogs s)))
                             (totalLogs s)\<rparr>)"

text \<open>
  \<open>applyFilters\<close> together with the table it redraws: its last statements are
  \<open>displayLogs\<close> and \<open>updatePagination\<close>. An exception of the filter leaves the page as
  it was.
\<close>

definition applyFilters_display ::
  "log_filters \<Rightarrow> activity \<Rightarrow> logs_page \<Rightarrow> js_error + activity \<times> logs_page" where
  "applyFilters_display c s page =
     (case Activity_applyFilters c s of
        Inl e \<Rightarrow> Inl e
      | Inr s1 \<Rightarrow> Inr (s1, displayLogs s1 page))"

text \<open>
  The outcome of \<open>GET /api/admin/dashboard\<close> in \<open>loadActivityLogs\<close>: the request throws,
  the response is not ok, its body is not JSON, the data lacks \<open>statistics\<close> or
  \<open>analytics\<close>, the data is comprehensive but \<open>processDashboardActivityData\<close> throws before
  it assigns \<open>allLogs\<close> (the recent activity is not an array), or the data is comprehensive
  and mapped. In the last case the value is the list of logs that
  \<open>processDashboardActivityData\<close> maps from the recent activity (that mapping is not
  modelled).
\<close>

datatype dashboard_outcome =
  DashRejected string | DashNotOk nat | DashBadJson string | DashIncomplete
  | DashUnprocessed | DashComprehensive "log list"

text \<open>
  The outcome of \<open>GET /api/login-history\<close>: the request throws, the response is not ok
  (status and status text), its body is not JSON, the body is \<open>null\<close> or its \<open>history\<close> is
  not an array (reading \<open>data.history\<close>, or calling \<open>logsArray.map\<close>, throws a
  \<open>TypeError\<close>), the data has \<open>success === false\<close> (with its optional message), the data
  is not \<open>null\<close> and holds neither a history nor an array, or it holds the entries.
\<close>

datatype history_outcome =
  HistRejected string | HistNotOk nat string | HistBadJson string | HistTypeError
  | HistFailure "string option" | HistUnexpected | HistLogs "history_entry list"

text \<open>
  What a call of \<open>loadActivityLogs\<close> did: the requests it issued, in order, the error
  handed to \<open>showErrorState\<close> if any, the manager and the page afterwards.
\<close>

record load_result =
  requests :: "request list"
  errorState :: "js_error option"
  manager :: activity
  page_after :: logs_page

text \<open>
  The \<open>catch\<close> block of \<open>loadActivityLogs\<close>: \<open>showErrorState\<close>, then \<open>allLogs\<close> is emptied
  and \<open>applyFilters\<close> redraws the table, over the error row.
\<close>

definition load_failed ::
  "log_filters \<Rightarrow> js_error \<Rightarrow> activity \<Rightarrow> logs_page
     \<Rightarrow> js_error + js_error option \<times> activity \<times> logs_page" where
  "load_failed c e s page =
     (case applyFilters_display c (s\<lparr>allLogs := []\<rparr>) (showErrorState e page) of
        Inl e2 \<Rightarrow> Inl e2
      | Inr (s1, page1) \<Rightarrow> Inr (Some e, s1, page1))"

text \<open>The entries are mapped to logs and filtered; an exception goes to the \<open>catch\<close> block.\<close>

definition history_loaded ::
  "log_filters \<Rightarrow> history_entry list \<Rightarrow> activity \<Rightarrow> logs_page
     \<Rightarrow> js_error + js_error option \<times> activity \<times> logs_page" where
  "history_loaded c entries s page =
     (let s1 = s\<lparr>allLogs := map_index history_log 0 entries\<rparr>
      in case applyFilters_display c s1 page of
           Inl e \<Rightarrow> load_failed c e s1 page
         | Inr (s2, page2) \<Rightarrow> Inr (None, s2, page2))"

text \<open>What follows the request to the login history endpoint.\<close>

definition load_history ::
  "log_filters \<Rightarrow> history_outcome \<Rightarrow> activity \<Rightarrow> logs_page
     \<Rightarrow> js_error + js_error option \<times> activity \<times> logs_page" where
  "load_history c hist s page =
     (case hist of
        HistRejected msg \<Rightarrow> load_failed c (Error msg) s page
      | HistNotOk st statusText \<Rightarrow>
          load_failed c (Error (''HTTP '' @ show_nat st @ '': '' @ statusText)) s page
      | HistBadJson msg \<Rightarrow> load_failed c (Error msg) s page
      | HistTypeError \<Rightarrow> load_failed c TypeError s page
      | HistFailure msg \<Rightarrow>
          load_failed c (Error (or_default msg ''Failed to load activity logs'')) s page
      | HistUnexpected \<Rightarrow> history_loaded c [] s page
      | HistLogs entries \<Rightarrow> history_loaded c entries s page)"

text \<open>
  \<open>loadActivityLogs(showLoading)\<close>: first the dashboard endpoint; unless its data is
  comprehensive and processed without an exception, the login history endpoint. \<open>Inl\<close> is
  an exception that leaves the method.
\<close>

definition loadActivityLogs ::
  "bool \<Rightarrow> log_filters \<Rightarrow> dashboard_outcome \<Rightarrow> history_outcome \<Rightarrow> activity \<Rightarrow> logs_page
     \<Rightarrow> js_error + load_result" where
  "loadActivityLogs showLoading c dash hist s page =
     (let page0 = (if showLoading then showLoadingState page else page);
          fallback = (\<lambda>s0. case load_history c hist s0 page0 of
                          Inl e \<Rightarrow> Inl e
                        | Inr (err, s1, page1) \<Rightarrow>
                            Inr \<lparr>requests = [dashboardRequest, historyRequest],
                                 errorState = err, manager = s1, page_after = page1\<rparr>)
      in case dash of
           DashComprehensive logs \<Rightarrow>
             (case applyFilters_display c (s\<lparr>allLogs := logs\<rparr>) page0 of
                Inr (s1, page1) \<Rightarrow>
                  Inr \<lparr>requests = [dashboardRequest], errorState = None, manager = s1,
                       page_after = page1\<rparr>
              | Inl e \<Rightarrow> fallback (s\<lparr>allLogs := logs\<rparr>))
         | DashRejected msg \<Rightarrow> fallback s
         | DashNotOk st \<Rightarrow> fallback s
         | DashBadJson msg \<Rightarrow> fallback s
         | DashIncomplete \<Rightarrow> fallback s
         | DashUnprocessed \<Rightarrow> fallback s)"

text \<open>
  \<open>checkAPIStatus\<close>. A probe either throws or answers with a status. The two status
  indicators hold their class name; \<open>None\<close> is an indicator that is not in the page.
\<close>

datatype probe = ProbeRejected | ProbeStatus nat

record indicators =
  apiStatus :: "string option"
  dbStatus :: "string option"

definition probe_ok :: "probe \<Rightarrow> bool" where
  "probe_ok p = (case p of ProbeRejected \<Rightarrow> False | ProbeStatus st \<Rightarrow> 200 \<le> st \<and> st \<le> 299)"

definition set_indicators :: "string \<Rightarrow> indicators \<Rightarrow> indicators" where
  "set_indicators className ind =
     \<lparr>apiStatus = setElementText (apiStatus ind) className,
      dbStatus = setElementText (dbStatus ind) className\<rparr>"

definition checkAPIStatus :: "probe \<Rightarrow> probe \<Rightarrow> indicators \<Rightarrow> request list \<times> indicators" where
  "checkAPIStatus health test ind =
     (if probe_ok health then
        ([healthRequest], set_indicators ''status-indicator online'' ind)
      else
        (case test of
           ProbeRejected \<Rightarrow>
             ([healthRequest, testRequest], set_indicators ''status-indicator offline'' ind)
         | ProbeStatus st \<Rightarrow>
             if st \<noteq> 404 then
               ([healthRequest, testRequest], set_indicators ''status-indicator online'' ind)
             else
               ([healthRequest, testRequest],
                set_indicators ''status-indicator offline'' ind)))"

text \<open>An entry of the login history that carries no IP address, and one that does.\<close>

definition entry_without_ip :: history_entry where
  "entry_without_ip =
     \<lparr>he_oid = Some ''a1'', he_id = None, he_timestamp = Some 1000, he_ip = None,
      he_ipAddress = None, he_username = Some ''admin'', he_success = Some True\<rparr>"

definition entry_with_ip :: "string \<Rightarrow> history_entry" where
  "entry_with_ip ip =
     \<lparr>he_oid = Some ''b2'', he_id = None, he_timestamp = Some 2000, he_ip = Some ip,
      he_ipAddress = None, he_username = Some ''admin'', he_success = Some False\<rparr>"

text \<open>A failed load: every outcome of the dashboard request but comprehensive data, and
  every outcome of the history request that ends in the \<open>catch\<close> block.\<close>

definition dash_failed :: "dashboard_outcome \<Rightarrow> bool" where
  "dash_failed dash =
     (case dash of
        DashComprehensive logs \<Rightarrow> False
      | DashRejected msg \<Rightarrow> True
      | DashNotOk st \<Rightarrow> True
      | DashBadJson msg \<Rightarrow> True
      | DashIncomplete \<Rightarrow> True
      | DashUnprocessed \<Rightarrow> True)"

definition hist_failed :: "history_outcome \<Rightarrow> bool" where
  "hist_failed hist =
     (case hist of
        HistLogs entries \<Rightarrow> False
      | HistUnexpected \<Rightarrow> False
      | HistRejected msg \<Rightarrow> True
      | HistNotOk st statusText \<Rightarrow> True
      | HistBadJson msg \<Rightarrow> True
      | HistTypeError \<Rightarrow> True
      | HistFailure msg \<Rightarrow> True)"

text \<open>Filter controls with only the IP control filled in; a page with both indicators.\<close>

definition ip_filter_only :: "string \<Rightarrow> log_filters" where
  "ip_filter_only v = \<lparr>lf_date = None, lf_ipAddress = Some v, lf_status = Some []\<rparr>"

text \<open>The fallback probe failed: it threw, or the endpoint answered 404.\<close>

definition fallback_failed :: "probe \<Rightarrow> bool" where
  "fallback_failed test = (case test of ProbeRejected \<Rightarrow> True | ProbeStatus st \<Rightarrow> st = 404)"

text \<open>The activity page while the first load runs.\<close>

definition loading_page :: logs_page where
  "loading_page = \<lparr>logsTableBody = LoadingRow, logsCount = CountText ''Loading...''\<rparr>"

definition page_indicators :: indicators where
  "page_indicators = \<lparr>apiStatus = Some ''status-indicator'', dbStatus = Some ''status-indicator''\<rparr>"

subsection \<open>Activity.js: TeamSheldonAdmin (login page)\<close>

definition MAX_LOGIN_ATTEMPTS :: nat where
  "MAX_LOGIN_ATTEMPTS = 5"

definition LOCKOUT_DURATION :: int where
  "LOCKOUT_DURATION = 15 * 60 * 1000"

text \<open>The object stored (as JSON) under \<open>admin_login_attempts\<close>.\<close>

record attempts =
  att_count :: nat
  att_timestamp :: int

text \<open>
  The fields of the login page object that the verified methods use, and the storage:
  \<open>localStorage\<close> holds the string items, \<open>attempts_item\<close> the parsed item
  \<open>admin_login_attempts\<close> (\<open>None\<close> when it is not stored). Cookies, timers and
  notifications are not modelled.
\<close>

record admin =
  loginAttempts :: nat
  isLoggingIn :: bool
  isAuthenticated :: bool
  localStorage :: storage
  attempts_item :: "attempts option"

text \<open>\<open>getLoginAttempts\<close>, with \<open>now\<close> for \<open>Date.now()\<close>.\<close>

definition getLoginAttempts :: "int \<Rightarrow> attempts option \<Rightarrow> nat" where
  "getLoginAttempts now item =
     (let stored = (case item of None \<Rightarrow> \<lparr>att_count = 0, att_timestamp = 0\<rparr> | Some d \<Rightarrow> d)
      in if now - att_timestamp stored > LOCKOUT_DURATION then 0 else att_count stored)"

text \<open>The constructor, run when the login page loads: it reads the storage as it is.\<close>

definition TeamSheldonAdmin_new :: "int \<Rightarrow> storage \<Rightarrow> attempts option \<Rightarrow> admin" where
  "TeamSheldonAdmin_new now ls item =
     \<lparr>loginAttempts = getLoginAttempts now item, isLoggingIn = False, isAuthenticated = False,
      localStorage = ls, attempts_item = item\<rparr>"

definition incrementLoginAttempts :: "int \<Rightarrow> admin \<Rightarrow> admin" where
  "incrementLoginAttempts now a =
     a\<lparr>loginAttempts := loginAttempts a + 1,
       attempts_item := Some \<lparr>att_count = loginAttempts a + 1, att_timestamp = now\<rparr>\<rparr>"

definition resetLoginAttempts :: "admin \<Rightarrow> admin" where
  "resetLoginAttempts a = a\<lparr>loginAttempts := 0, attempts_item := None\<rparr>"

definition lockAccount :: "int \<Rightarrow> admin \<Rightarrow> admin" where
  "lockAccount now a =
     a\<lparr>attempts_item := Some \<lparr>att_count = MAX_LOGIN_ATTEMPTS, att_timestamp = now\<rparr>\<rparr>"

definition isLocked :: "admin \<Rightarrow> bool" where
  "isLocked a = (loginAttempts a \<ge> MAX_LOGIN_ATTEMPTS)"

definition handleLoginFailure :: "int \<Rightarrow> admin \<Rightarrow> admin" where
  "handleLoginFailure now a =
     (let a1 = incrementLoginAttempts now a;
          attemptsLeft = int MAX_LOGIN_ATTEMPTS - int (loginAttempts a1)
      in if attemptsLeft \<le> 0 then lockAccount now a1 else a1)"

text \<open>The user object and the login data of a response; every property is optional.\<close>

record user_obj =
  user_name :: "string option"
  user_email :: "string option"
  user_username :: "string option"
  user_role :: "string option"

record userData =
  ud_token :: "string option"
  ud_access_token :: "string option"
  ud_authToken :: "string option"
  ud_user :: "user_obj option"
  ud_userData :: "user_obj option"
  ud_name :: "string option"
  ud_username :: "string option"
  ud_email :: "string option"
  ud_role :: "string option"

text \<open>
  \<open>handleLoginSuccess\<close>: the attempts are reset, the token goes under both keys (or both
  keys are removed), the user information and the session flag are stored.
\<close>

definition handleLoginSuccess :: "userData \<Rightarrow> admin \<Rightarrow> admin" where
  "handleLoginSuccess ud a =
     (let a1 = resetLoginAttempts a;
          token = js_or (js_or (ud_token ud) (ud_access_token ud)) (ud_authToken ud);
          user = (case ud_user ud of
                    Some u \<Rightarrow> u
                  | None \<Rightarrow>
                      (case ud_userData ud of
                         Some u \<Rightarrow> u
                       | None \<Rightarrow>
                           \<lparr>user_name = Some (or_default (js_or (ud_name ud) (ud_username ud))
                                                 ''Admin User''),
                            user_email = Some (or_default (ud_email ud)
                                                 ''admin@teamsheldon.tech''),
                            user_username = None,
                            user_role = Some (or_default (ud_role ud) ''Administrator'')\<rparr>));
          ls1 = (if truthy token
                 then setItem (setItem (localStorage a1) ''adminToken'' (or_default token []))
                        ''authToken'' (or_default token [])
                 else removeItem (removeItem (localStorage a1) ''adminToken'') ''authToken'');
          userEmail = or_default (js_or (user_email user) (user_username user)) ''Loading...'';
          userRole = or_default (user_role user) ''Loading...'';
          ls2 = setItem (setItem (setItem ls1 ''userEmail'' userEmail) ''userRole'' userRole)
                  ''userName'' (or_default (user_name user) (before_at userEmail));
          ls3 = setItem ls2 ''admin_session_active'' ''true''
      in a1\<lparr>isAuthenticated := True, localStorage := ls3\<rparr>)"

text \<open>\<open>TeamSheldonAdmin.logout\<close>.\<close>

definition logout :: "admin \<Rightarrow> admin" where
  "logout a =
     a\<lparr>isAuthenticated := False,
       localStorage := removeItem (removeItem (removeItem (localStorage a)
                         ''admin_session_active'') ''adminToken'') ''authToken''\<rparr>"

text \<open>
  The other pages share the storage. \<open>performLogout\<close> of the activity page
  (Activity.js), of the dashboard page (Dashboard.js), and the branch of \<open>Analytics.init\<close>
  taken when the token is not verified (Scouting.js).
\<close>

definition Activity_performLogout :: "storage \<Rightarrow> storage" where
  "Activity_performLogout ls =
     removeItem (removeItem (removeItem (removeItem ls ''authToken'') ''refreshToken'')
       ''userInfo'') ''loginTimestamp''"

definition Dashboard_performLogout :: "storage \<Rightarrow> storage" where
  "Dashboard_performLogout ls =
     removeItem (removeItem (removeItem (removeItem (removeItem ls ''adminToken'')
       ''authToken'') ''userEmail'') ''userRole'') ''sessionId''"

definition Analytics_auth_failed :: "storage \<Rightarrow> storage" where
  "Analytics_auth_failed ls = removeItem ls ''authToken''"

text \<open>The two keys in lockstep: both absent, or both holding the same token.\<close>

definition lockstep :: "storage \<Rightarrow> bool" where
  "lockstep ls = (getItem ls ''adminToken'' = getItem ls ''authToken'')"

text \<open>
  What \<open>authenticateUser\<close> gives \<open>handleLogin\<close>: it throws (network error, response not ok,
  rate limit), or returns the parsed body: \<open>null\<close>, or an object with its \<open>success\<close> flag,
  its \<open>data\<close> and itself read as login data (\<open>token\<close>, \<open>user\<close>, ...).
\<close>

record auth_response =
  ar_success :: "bool option"
  ar_data :: "userData option"
  ar_self :: userData

datatype auth_outcome = AuthThrows string | AuthNull | AuthResponse auth_response

definition loginRequest :: request where
  "loginRequest = \<lparr>req_method = ''POST'', req_url = API_BASE @ ''/api/auth/login''\<rparr>"

text \<open>
  \<open>handleLogin\<close>: \<open>valid\<close> is the result of \<open>validateCredentials\<close>, \<open>outcome\<close> what the
  authentication request gives, \<open>now\<close> the time. The result is the list of requests issued
  and the object afterwards.
\<close>

definition handleLogin :: "int \<Rightarrow> bool \<Rightarrow> auth_outcome \<Rightarrow> admin \<Rightarrow> request list \<times> admin" where
  "handleLogin now valid outcome a =
     (if isLoggingIn a \<or> isLocked a then ([], a)
      else if \<not> valid then ([], a)
      else
        (let a1 = a\<lparr>isLoggingIn := True\<rparr>;
             a2 = (case outcome of
                     AuthThrows msg \<Rightarrow> a1
                   | AuthNull \<Rightarrow> handleLoginFailure now a1
                   | AuthResponse r \<Rightarrow>
                       if ar_success r = Some True \<or> truthy (ud_token (ar_self r))
                          \<or> ud_user (ar_self r) \<noteq> None
                       then (case ar_data r of
                               Some d \<Rightarrow>
                                 if ar_success r = Some True then handleLoginSuccess d a1
                                 else handleLoginSuccess (ar_self r) a1
                             | None \<Rightarrow> handleLoginSuccess (ar_self r) a1)
                       else handleLoginFailure now a1)
         in ([loginRequest], a2\<lparr>isLoggingIn := False\<rparr>)))"

text \<open>A run of failed logins at the given times, each through \<open>handleLogin\<close>.\<close>

definition failed_response :: auth_outcome where
  "failed_response =
     AuthResponse \<lparr>ar_success = Some False, ar_data = None,
       ar_self = \<lparr>ud_token = None, ud_access_token = None, ud_authToken = None, ud_user = None,
                  ud_userData = None, ud_name = None, ud_username = None, ud_email = None,
                  ud_role = None\<rparr>\<rparr>"

fun failed_logins :: "int list \<Rightarrow> admin \<Rightarrow> admin" where
  "failed_logins [] a = a"
| "failed_logins (t # ts) a = failed_logins ts (snd (handleLogin t True failed_response a))"

text \<open>Login data that holds a token and nothing else.\<close>

definition token_only :: "string \<Rightarrow> userData" where
  "token_only t =
     \<lparr>ud_token = Some t, ud_access_token = None, ud_authToken = None, ud_user = None,
      ud_userData = None, ud_name = None, ud_username = None, ud_email = None,
      ud_role = None\<rparr>"

section \<open>Theorems\<close>

subsection \<open>Notification store\<close>

lemma storeNotification_written:
  assumes "stored_list slot = Some xs"
  shows "storeNotification WriteOk n slot =
           Some (Array ((if 5 \<le> length xs then drop (length xs - 4) xs else xs) @ [n]))"
  using assms
  by (cases slot rule: stored_list.cases)
     (simp_all add: storeNotification_def MAX_STORED_NOTIFICATIONS_def slice_last_def)

lemma storeNotification_not_written:
  assumes "stored_list slot = Some xs"
  shows "storeNotification WriteThrows n slot = slot"
  using assms
  by (cases slot rule: stored_list.cases) (simp_all add: storeNotification_def)

lemma storeNotification_length:
  assumes "stored_list slot = Some xs"
  shows "\<exists>zs. stored_list (storeNotification w n slot) = Some zs
              \<and> length zs \<le> max 5 (length xs)"
proof (cases w)
  case WriteOk
  with storeNotification_written [OF assms, of n] show ?thesis by auto
next
  case WriteThrows
  with storeNotification_not_written [OF assms, of n] assms show ?thesis by auto
qed

lemma store_all_snoc:
  "store_all slot (calls @ [(w, n)]) = storeNotification w n (store_all slot calls)"
  by (induction slot calls rule: store_all.induct) simp_all

lemma store_all_length:
  assumes "stored_list slot = Some xs"
  shows "\<exists>zs. stored_list (store_all slot calls) = Some zs \<and> length zs \<le> max 5 (length xs)"
  using assms
proof (induction slot calls arbitrary: xs rule: store_all.induct)
  case (1 slot)
  then show ?case by simp
next
  case (2 slot w n calls)
  from storeNotification_length [OF "2.prems", of w n]
  obtain zs where z: "stored_list (storeNotification w n slot) = Some zs"
    and l: "length zs \<le> max 5 (length xs)" by blast
  from "2.IH" [OF z] l show ?case by auto
qed

text \<open>
  C9, as stated, fails: a call whose write throws (the \<open>catch\<close> block only logs
  \<open>Failed to store notification\<close>) does not append. With 1, 2 stored and the write of 3
  failing, the stored list is still 1, 2.
\<close>

theorem storeNotification_write_throws_unchanged:
  "storeNotification WriteThrows (3::nat) (Some (Array [1, 2])) = Some (Array [1, 2])"
  by (simp add: storeNotification_def)

text \<open>
  C9, amended. Start from any stored list \<open>xs\<close> (the key absent or empty, or a JSON array
  of any length) and run any sequence of \<open>storeNotification\<close> calls; let \<open>before\<close> be the
  list stored after them. It is never longer than the larger of
  \<open>MAX_STORED_NOTIFICATIONS = 5\<close> and the length of \<open>xs\<close>. A further call whose write
  succeeds stores exactly the last 4 entries of \<open>before\<close> when it has 5 or more, else all of
  \<open>before\<close>, followed by the new notification as the last element; that list has at most 5
  entries. A further call whose write throws leaves the storage as it was.
\<close>

theorem storeNotification_appends_bounded:
  assumes "stored_list slot = Some xs"
  shows "\<exists>before. stored_list (store_all slot calls) = Some before
           \<and> length before \<le> max 5 (length xs)
           \<and> store_all slot (calls @ [(WriteOk, n)]) =
               Some (Array ((if 5 \<le> length before then drop (length before - 4) before
                             else before) @ [n]))
           \<and> length ((if 5 \<le> length before then drop (length before - 4) before
                       else before) @ [n]) \<le> 5
           \<and> store_all slot (calls @ [(WriteThrows, n)]) = store_all slot calls"
proof -
  from store_all_length [OF assms, of calls]
  obtain before where b: "stored_list (store_all slot calls) = Some before"
    and l: "length before \<le> max 5 (length xs)" by blast
  have "store_all slot (calls @ [(WriteOk, n)]) =
          Some (Array ((if 5 \<le> length before then drop (length before - 4) before
                        else before) @ [n]))"
    by (simp add: store_all_snoc storeNotification_written [OF b])
  moreover have "store_all slot (calls @ [(WriteThrows, n)]) = store_all slot calls"
    by (simp add: store_all_snoc storeNotification_not_written [OF b])
  moreover have "length ((if 5 \<le> length before then drop (length before - 4) before
                          else before) @ [n]) \<le> 5"
    by simp
  ultimately show ?thesis using b l by blast
qed

theorem storeNotification_appends_bounded_witness:
  "stored_list (Some (Array [1, 2 :: nat])) = Some [1, 2]
   \<and> store_all (Some (Array [1, 2 :: nat])) ([] @ [(WriteOk, 3)]) = Some (Array [1, 2, 3])
   \<and> store_all (Some (Array [1, 2 :: nat]))
        [(WriteOk, 3), (WriteThrows, 9), (WriteOk, 4), (WriteOk, 5)]
       = Some (Array [1, 2, 3, 4, 5])
   \<and> store_all (Some (Array [1, 2 :: nat]))
        ([(WriteOk, 3), (WriteThrows, 9), (WriteOk, 4), (WriteOk, 5)] @ [(WriteOk, 6)])
       = Some (Array [2, 3, 4, 5, 6])
   \<and> store_all (Some (Array [1, 2 :: nat]))
        ([(WriteOk, 3), (WriteThrows, 9), (WriteOk, 4), (WriteOk, 5)] @ [(WriteThrows, 6)])
       = Some (Array [1, 2, 3, 4, 5])"
proof -
  have h: "stored_list (Some (Array [1, 2 :: nat])) = Some [1, 2]"
    by simp
  have run: "store_all (Some (Array [1, 2 :: nat]))
               [(WriteOk, 3), (WriteThrows, 9), (WriteOk, 4), (WriteOk, 5)]
             = Some (Array [1, 2, 3, 4, 5])"
    by (simp add: storeNotification_def MAX_STORED_NOTIFICATIONS_def slice_last_def)
  from storeNotification_appends_bounded [OF h, of "[]" 3]
  have short: "store_all (Some (Array [1, 2 :: nat])) ([] @ [(WriteOk, 3)])
                 = Some (Array [1, 2, 3])"
    by simp
  from storeNotification_appends_bounded
         [OF h, of "[(WriteOk, 3), (WriteThrows, 9), (WriteOk, 4), (WriteOk, 5)]" 6] run
  have full: "store_all (Some (Array [1, 2 :: nat]))
        ([(WriteOk, 3), (WriteThrows, 9), (WriteOk, 4), (WriteOk, 5)] @ [(WriteOk, 6)])
       = Some (Array [2, 3, 4, 5, 6])"
    and failed: "store_all (Some (Array [1, 2 :: nat]))
        ([(WriteOk, 3), (WriteThrows, 9), (WriteOk, 4), (WriteOk, 5)] @ [(WriteThrows, 6)])
       = Some (Array [1, 2, 3, 4, 5])"
    by simp_all
  from h run short full failed show ?thesis by blast
qed

subsection \<open>Dashboard.safeFetch\<close>

lemma safeFetch_never_raises: "\<exists>res. safeFetch outcome = Inr res"
  by (simp add: safeFetch_def split: sum.splits)

text \<open>
  C3, as stated, fails: a response that is ok (status 204, no content) whose body does not
  parse as JSON makes \<open>response.json()\<close> throw inside the \<open>try\<close>, and \<open>safeFetch\<close> returns
  the \<open>network_error\<close> object, not \<open>{success: true, data}\<close>.
\<close>

theorem safeFetch_ok_response_network_error:
  "response_ok \<lparr>http_status = 204, http_statusText = ''No Content'',
       json_body = (Inl ''Unexpected end of JSON input'' :: string + nat), text_body = Inr ''''\<rparr>
   \<and> safeFetch (Resolved \<lparr>http_status = 204, http_statusText = ''No Content'',
       json_body = (Inl ''Unexpected end of JSON input'' :: string + nat), text_body = Inr ''''\<rparr>)
     = Inr \<lparr>success = False, data = None, error = Some ''network_error'',
            message = Some ''Unexpected end of JSON input''\<rparr>"
  by (simp add: safeFetch_def safeFetch_try_def response_ok_def)

text \<open>
  C3, amended. \<open>safeFetch\<close> never raises and always returns an object. It is
  \<open>{success: true, data}\<close> exactly when the response is ok and its body parses as JSON (the data
  being the parsed body); its error is \<open>rate_limit\<close> exactly when the status is 429;
  \<open>api_error\<close> exactly for a response that is not ok, not 429, and whose text can be read;
  and \<open>network_error\<close> exactly when \<open>fetch\<close> throws or reading the body (JSON of an ok
  response, text of another one) throws. No other result exists.
\<close>

theorem safeFetch_outcomes:
  "\<exists>res. safeFetch outcome = Inr res
     \<and> (success res \<longleftrightarrow>
          (\<exists>r d. outcome = Resolved r \<and> response_ok r \<and> json_body r = Inr d \<and> data res = Some d))
     \<and> (error res = Some ''rate_limit'' \<longleftrightarrow> (\<exists>r. outcome = Resolved r \<and> http_status r = 429))
     \<and> (error res = Some ''api_error'' \<longleftrightarrow>
          (\<exists>r t. outcome = Resolved r \<and> http_status r \<noteq> 429 \<and> \<not> response_ok r
                 \<and> text_body r = Inr t))
     \<and> (error res = Some ''network_error'' \<longleftrightarrow>
          ((\<exists>msg. outcome = Rejected msg)
           \<or> (\<exists>r msg. outcome = Resolved r \<and> http_status r \<noteq> 429
                 \<and> (if response_ok r then json_body r = Inl msg else text_body r = Inl msg))))
     \<and> (success res \<or> error res = Some ''rate_limit'' \<or> error res = Some ''api_error''
          \<or> error res = Some ''network_error'')"
proof (cases outcome)
  case (Rejected msg)
  then show ?thesis by (simp add: safeFetch_def safeFetch_try_def)
next
  case (Resolved r)
  show ?thesis
  proof (cases "http_status r = 429")
    case True
    then have "\<not> response_ok r" by (simp add: response_ok_def)
    with True Resolved show ?thesis by (simp add: safeFetch_def safeFetch_try_def)
  next
    case False
    show ?thesis
    proof (cases "response_ok r")
      case True
      with False Resolved show ?thesis
        by (cases "json_body r") (simp_all add: safeFetch_def safeFetch_try_def)
    next
      case nok: False
      with False Resolved show ?thesis
        by (cases "text_body r") (simp_all add: safeFetch_def safeFetch_try_def)
    qed
  qed
qed

subsection \<open>User profile fallbacks\<close>

lemma or_default_js_or: "or_default (js_or a b) d = first_non_empty [a, b] d"
  by (cases a; cases b) (auto simp: or_default_def js_or_def truthy_def)

lemma or_default_first: "or_default a d = first_non_empty [a] d"
  by (cases a) (auto simp: or_default_def)

lemma first_non_empty_js_or:
  "first_non_empty (js_or a b # vs) d = first_non_empty (a # b # vs) d"
  by (cases a; cases b) (auto simp: js_or_def truthy_def)

lemma truthy_cases:
  assumes "\<not> truthy u \<Longrightarrow> first_non_empty [u] d = d \<Longrightarrow> P"
    and "\<And>v. u = Some v \<Longrightarrow> v \<noteq> [] \<Longrightarrow> truthy u \<Longrightarrow> first_non_empty [u] d = v \<Longrightarrow> P"
  shows P
  using assms by (cases u) (auto simp: truthy_def)

lemma before_at_no_at: "\<not> includes_at (before_at s)"
  unfolding includes_at_def before_at_def
  by (metis (mono_tags, lifting) set_takeWhileD)

lemma before_at_id: "\<not> includes_at s \<Longrightarrow> before_at s = s"
  unfolding includes_at_def before_at_def by (induction s) auto

lemma updateUserDisplay_chain:
  "updateUserDisplay userInfo =
     \<lparr>sidebarUserName =
        first_non_empty [info_username userInfo, info_name userInfo] ''Admin User'',
      sidebarUserRole =
        first_non_empty [info_role userInfo, info_userRole userInfo] ''Administrator'',
      sidebarUserEmail =
        first_non_empty [info_email userInfo, info_userEmail userInfo]
          ''admin@teamsheldon.tech''\<rparr>"
  by (simp add: updateUserDisplay_def or_default_js_or)

lemma load_role:
  "sidebarUserRole (loadUserInfoWithFallbacks ls) =
     first_non_empty [getItem ls ''userRole'', getItem ls ''role'', getItem ls ''adminRole'']
       ''Administrator''"
proof -
  have "first_non_empty [getItem ls ''userRole'', getItem ls ''role'', getItem ls ''adminRole'']
          ''Administrator'' \<noteq> []"
    by (cases "getItem ls ''userRole''"; cases "getItem ls ''role''";
        cases "getItem ls ''adminRole''") auto
  then show ?thesis
    by (simp add: loadUserInfoWithFallbacks_def Let_def or_default_first first_non_empty_js_or)
qed

lemma load_name:
  "sidebarUserName (loadUserInfoWithFallbacks ls) =
     first_non_empty
       [Some (before_at (first_non_empty [getItem ls ''username'', getItem ls ''userEmail'',
                getItem ls ''user'', getItem ls ''adminUsername''] []))] ''Admin User''"
proof -
  define u where "u = js_or (js_or (js_or (getItem ls ''username'') (getItem ls ''userEmail''))
                                   (getItem ls ''user'')) (getItem ls ''adminUsername'')"
  have chain: "first_non_empty [getItem ls ''username'', getItem ls ''userEmail'',
                getItem ls ''user'', getItem ls ''adminUsername''] [] = first_non_empty [u] []"
    by (simp add: u_def first_non_empty_js_or)
  have name: "sidebarUserName (loadUserInfoWithFallbacks ls) =
     or_default (if (case u of None \<Rightarrow> False | Some w \<Rightarrow> w \<noteq> [] \<and> includes_at w)
                 then map_option before_at u else u) ''Admin User''"
    by (simp add: loadUserInfoWithFallbacks_def Let_def u_def)
  show ?thesis
  proof (rule truthy_cases [of u "[]"])
    assume "\<not> truthy u" "first_non_empty [u] [] = []"
    then show ?thesis
      unfolding name chain
      by (cases u) (auto simp: truthy_def or_default_def before_at_def)
  next
    fix v assume "u = Some v" "v \<noteq> []" "truthy u" "first_non_empty [u] [] = v"
    then show ?thesis
      unfolding name chain
      by (auto simp: or_default_def before_at_id)
  qed
qed

lemma load_email:
  "sidebarUserEmail (loadUserInfoWithFallbacks ls) =
     (let v = first_non_empty [getItem ls ''username'', getItem ls ''userEmail'',
                getItem ls ''user'', getItem ls ''adminUsername''] []
      in first_non_empty [getItem ls ''userEmail'', getItem ls ''email'', getItem ls ''username'',
           if includes_at v then Some v else None] ''admin@teamsheldon.tech'')"
proof -
  define u where "u = js_or (js_or (js_or (getItem ls ''username'') (getItem ls ''userEmail''))
                                   (getItem ls ''user'')) (getItem ls ''adminUsername'')"
  define e where "e = js_or (js_or (getItem ls ''userEmail'') (getItem ls ''email''))
                             (getItem ls ''username'')"
  define cleanup where
    "cleanup = (case u of None \<Rightarrow> False | Some w \<Rightarrow> w \<noteq> [] \<and> includes_at w)"
  have chain_u: "first_non_empty [getItem ls ''username'', getItem ls ''userEmail'',
                getItem ls ''user'', getItem ls ''adminUsername''] [] = first_non_empty [u] []"
    by (simp add: u_def first_non_empty_js_or)
  have chain_e: "first_non_empty (getItem ls ''userEmail'' # getItem ls ''email''
                   # getItem ls ''username'' # vs) d = first_non_empty (e # vs) d" for vs d
    by (simp add: e_def first_non_empty_js_or)
  have email: "sidebarUserEmail (loadUserInfoWithFallbacks ls) =
     (let e1 = (if cleanup \<and> \<not> truthy e then u else e);
          n2 = or_default (if cleanup then map_option before_at u else u) ''Admin User''
      in if \<not> truthy e1 then (if includes_at n2 then n2 else ''admin@teamsheldon.tech'')
         else or_default e1 [])"
    by (simp add: loadUserInfoWithFallbacks_def Let_def u_def e_def cleanup_def)
  show ?thesis
  proof (rule truthy_cases [of e "[]"])
    fix w assume "e = Some w" "w \<noteq> []" "truthy e" "first_non_empty [e] [] = w"
    then show ?thesis
      unfolding email chain_u chain_e by (simp add: Let_def or_default_def)
  next
    assume falsy: "\<not> truthy e" "first_non_empty [e] [] = []"
    then have e_skip: "first_non_empty (e # vs) d = first_non_empty vs d" for vs d
      by (cases e) (auto simp: truthy_def)
    show ?thesis
    proof (rule truthy_cases [of u "[]"])
      fix v assume val: "u = Some v" "v \<noteq> []" "truthy u" "first_non_empty [u] [] = v"
      show ?thesis
      proof (cases "includes_at v")
        case True
        with val falsy show ?thesis
          unfolding email chain_u chain_e e_skip
          by (simp add: Let_def cleanup_def or_default_def)
      next
        case False
        with val falsy show ?thesis
          unfolding email chain_u chain_e e_skip
          by (simp add: Let_def cleanup_def or_default_def includes_at_def)
      qed
    next
      assume ufalsy: "\<not> truthy u" "first_non_empty [u] [] = []"
      then have "\<not> cleanup" by (cases u) (auto simp: cleanup_def truthy_def)
      moreover have "or_default u ''Admin User'' = ''Admin User''"
        using ufalsy by (cases u) (auto simp: truthy_def or_default_def)
      ultimately show ?thesis
        using ufalsy falsy unfolding email chain_u chain_e e_skip
        by (simp add: Let_def includes_at_def)
    qed
  qed
qed

text \<open>
  C5, as stated, fails for \<open>loadUserInfoWithFallbacks\<close>: with \<open>bob@x.com\<close> stored under
  \<open>username\<close>, the first non-empty value of the chain is \<open>bob@x.com\<close> but the name displayed
  is \<open>bob\<close>.
\<close>

theorem loadUserInfoWithFallbacks_strips_domain:
  "sidebarUserName (loadUserInfoWithFallbacks [''username'' \<mapsto> ''bob@x.com'']) = ''bob''
   \<and> first_non_empty [getItem [''username'' \<mapsto> ''bob@x.com''] ''username'',
                       getItem [''username'' \<mapsto> ''bob@x.com''] ''userEmail'',
                       getItem [''username'' \<mapsto> ''bob@x.com''] ''user'',
                       getItem [''username'' \<mapsto> ''bob@x.com''] ''adminUsername''] ''Admin User''
       = ''bob@x.com''"
  by (simp add: loadUserInfoWithFallbacks_def getItem_def js_or_def truthy_def or_default_def
        includes_at_def before_at_def)

text \<open>
  C5, amended. \<open>updateUserDisplay\<close> displays, for each field, the first non-empty value of
  its chain: \<open>username\<close>, \<open>name\<close>, else \<open>Admin User\<close>; \<open>role\<close>, \<open>userRole\<close>, else
  \<open>Administrator\<close>; \<open>email\<close>, \<open>userEmail\<close>, else \<open>admin@teamsheldon.tech\<close>.
  \<open>loadUserInfoWithFallbacks\<close> displays as role the first non-empty value of the storage keys
  \<open>userRole\<close>, \<open>role\<close>, \<open>adminRole\<close>, else \<open>Administrator\<close>; as name the part before the first
  \<open>@\<close> of the first non-empty value \<open>v\<close> of the keys \<open>username\<close>, \<open>userEmail\<close>, \<open>user\<close>,
  \<open>adminUsername\<close>, else \<open>Admin User\<close> when that part is empty; and as email the first
  non-empty value of the keys \<open>userEmail\<close>, \<open>email\<close>, \<open>username\<close>, then \<open>v\<close> when it contains
  \<open>@\<close>, else \<open>admin@teamsheldon.tech\<close>.
\<close>

theorem user_profile_first_non_empty:
  "updateUserDisplay userInfo =
     \<lparr>sidebarUserName =
        first_non_empty [info_username userInfo, info_name userInfo] ''Admin User'',
      sidebarUserRole =
        first_non_empty [info_role userInfo, info_userRole userInfo] ''Administrator'',
      sidebarUserEmail =
        first_non_empty [info_email userInfo, info_userEmail userInfo]
          ''admin@teamsheldon.tech''\<rparr>
   \<and> sidebarUserRole (loadUserInfoWithFallbacks ls) =
       first_non_empty [getItem ls ''userRole'', getItem ls ''role'', getItem ls ''adminRole'']
         ''Administrator''
   \<and> sidebarUserName (loadUserInfoWithFallbacks ls) =
       first_non_empty
         [Some (before_at (first_non_empty [getItem ls ''username'', getItem ls ''userEmail'',
                  getItem ls ''user'', getItem ls ''adminUsername''] []))] ''Admin User''
   \<and> sidebarUserEmail (loadUserInfoWithFallbacks ls) =
       (let v = first_non_empty [getItem ls ''username'', getItem ls ''userEmail'',
                  getItem ls ''user'', getItem ls ''adminUsername''] []
        in first_non_empty [getItem ls ''userEmail'', getItem ls ''email'',
             getItem ls ''username'', if includes_at v then Some v else None]
             ''admin@teamsheldon.tech'')"
  using updateUserDisplay_chain [of userInfo] load_role [of ls] load_name [of ls]
    load_email [of ls]
  by blast

subsection \<open>ScoutingManager\<close>

lemma team_passes_no_filters: "team_passes no_team_filters t"
  by (simp add: team_passes_def no_team_filters_def truthy_def or_default_def Let_def
        toLowerCase_def)

lemma js_sort_Nil: "js_sort cmp [] = []"
  by (simp add: js_sort_def)

lemma renderTeams_empty:
  assumes "teamsGrid s \<noteq> None" "teamsCount s \<noteq> None" "filteredTeams s = []"
  shows "teamsCount (renderTeams s) = Some ''0 teams''"
    and "teamsGrid (renderTeams s) = Some NoTeamsFound"
  using assms by (auto simp: renderTeams_def setElementText_def split: option.splits)

lemma sortTeams_frame:
  "teamsGrid (sortTeams f False s) = teamsGrid s"
  "teamsCount (sortTeams f False s) = teamsCount s"
  "allTeams (sortTeams f False s) = allTeams s"
  by (simp_all add: sortTeams_def Let_def)

lemma sortTeams_empty: "filteredTeams s = [] \<Longrightarrow> filteredTeams (sortTeams f False s) = []"
  by (simp add: sortTeams_def Let_def js_sort_Nil)

lemma renderTeams_currentSort: "currentSort (renderTeams s) = currentSort s"
  by (simp add: renderTeams_def Let_def split: option.splits)

text \<open>
  Every run of \<open>applyFilters\<close> goes through the toggle of \<open>sortTeams\<close>: it passes the
  current sort field, so the direction is flipped and never kept.
\<close>

lemma Scouting_applyFilters_flips_direction:
  assumes "sort_field (currentSort s) \<noteq> []"
  shows "sort_direction (currentSort (Scouting_applyFilters c s)) =
           (if sort_direction (currentSort s) = ''asc'' then ''desc'' else ''asc'')"
    and "sort_field (currentSort (Scouting_applyFilters c s)) = sort_field (currentSort s)"
  using assms
  by (simp_all add: Scouting_applyFilters_def Let_def renderTeams_currentSort sortTeams_def
        truthy_def or_default_def)

text \<open>
  C1 does not hold of the code. With two teams loaded (numbers 1 and 2), no filter set and
  the constructor's sort state, the first run of \<open>applyFilters\<close> leaves \<open>filteredTeams\<close> in
  the order 2, 1 and a second run with the same inputs leaves it in the order 1, 2.
\<close>

theorem Scouting_applyFilters_not_idempotent:
  "filteredTeams (Scouting_applyFilters no_team_filters
       (ScoutingManager_new\<lparr>allTeams := [team_numbered 1, team_numbered 2]\<rparr>))
     = [team_numbered 2, team_numbered 1]
   \<and> filteredTeams (Scouting_applyFilters no_team_filters
        (Scouting_applyFilters no_team_filters
          (ScoutingManager_new\<lparr>allTeams := [team_numbered 1, team_numbered 2]\<rparr>)))
     = [team_numbered 1, team_numbered 2]"
  by (simp add: Scouting_applyFilters_def ScoutingManager_new_def team_passes_no_filters
        sortTeams_def truthy_def or_default_def Let_def js_sort_def team_cmp_def
        getFieldValue_def team_numbered_def num_or_def renderTeams_def setElementText_def)

text \<open>
  C2. In a page that has the grid and the team-count elements, when the teams API answers
  with an empty array, \<open>loadTeams\<close> (whose \<open>finally\<close> block runs \<open>applyFilters\<close> and with it
  \<open>renderTeams\<close>) leaves the text \<open>0 teams\<close> in the team-count element and the
  placeholder in the grid, whatever the manager held and whatever the filter controls hold.
\<close>

theorem loadTeams_empty_count:
  assumes "teamsGrid s \<noteq> None" and "teamsCount s \<noteq> None"
  shows "teamsCount (loadTeams c (TeamsArray []) s) = Some ''0 teams''
         \<and> teamsGrid (loadTeams c (TeamsArray []) s) = Some NoTeamsFound"
  unfolding loadTeams_def Scouting_applyFilters_def Let_def
  by (rule conjI; rule renderTeams_empty)
     (simp_all add: sortTeams_frame sortTeams_empty assms)

theorem loadTeams_empty_count_witness:
  "teamsGrid (ScoutingManager_new\<lparr>allTeams := [team_numbered 1]\<rparr>) \<noteq> None
   \<and> teamsCount (ScoutingManager_new\<lparr>allTeams := [team_numbered 1]\<rparr>) \<noteq> None
   \<and> teamsCount (loadTeams no_team_filters (TeamsArray [])
        (ScoutingManager_new\<lparr>allTeams := [team_numbered 1]\<rparr>)) = Some ''0 teams''"
proof -
  have g: "teamsGrid (ScoutingManager_new\<lparr>allTeams := [team_numbered 1]\<rparr>) \<noteq> None"
    and n: "teamsCount (ScoutingManager_new\<lparr>allTeams := [team_numbered 1]\<rparr>) \<noteq> None"
    by (simp_all add: ScoutingManager_new_def)
  from loadTeams_empty_count [OF g n, of no_team_filters] g n show ?thesis by simp
qed

subsection \<open>ActivityLogsManager.sortLogs\<close>

lemma str_lt_irrefl: "\<not> str_lt a a"
  by (induction a) auto

lemma str_lt_trans: "str_lt a b \<Longrightarrow> str_lt b c \<Longrightarrow> str_lt a c"
proof (induction a b arbitrary: c rule: str_lt.induct)
  case (2 y ys)
  then show ?case by (cases c) auto
next
  case (4 x xs y ys)
  then show ?case by (cases c) auto
qed auto

lemma str_lt_total: "str_lt a b \<or> a = b \<or> str_lt b a"
proof (induction a b rule: str_lt.induct)
  case (4 x xs y ys)
  have "(of_char x :: nat) < of_char y \<or> x = y \<or> (of_char y :: nat) < of_char x"
    by (metis linorder_neqE_nat of_char_eq_iff)
  with 4 show ?case by auto
qed auto

lemma str_lt_asym: "str_lt a b \<Longrightarrow> \<not> str_lt b a"
  using str_lt_irrefl str_lt_trans by blast

lemma js_lt_asym: "js_lt a b \<Longrightarrow> \<not> js_lt b a"
  by (cases a; cases b) (auto dest: str_lt_asym)

lemma js_lt_trans: "js_lt a b \<Longrightarrow> js_lt b c \<Longrightarrow> js_lt a c"
  by (cases a; cases b; cases c) (auto dest: str_lt_trans)

lemma log_field_kind:
  "has_value (log_field a f) \<Longrightarrow> has_value (log_field b f) \<Longrightarrow>
     (\<exists>x y. log_field a f = Num x \<and> log_field b f = Num y)
     \<or> (\<exists>x y. log_field a f = Str x \<and> log_field b f = Str y)"
  by (auto simp: log_field_def has_value_def split: if_splits option.splits)

lemma js_le_trans:
  assumes "has_value (log_field a f)" "has_value (log_field b f)" "has_value (log_field c f)"
    and "\<not> js_lt (log_field b f) (log_field a f)" "\<not> js_lt (log_field c f) (log_field b f)"
  shows "\<not> js_lt (log_field c f) (log_field a f)"
proof -
  from log_field_kind [OF assms(1,2)] log_field_kind [OF assms(2,3)]
  consider x y z where "log_field a f = Num x" "log_field b f = Num y" "log_field c f = Num z"
    | x y z where "log_field a f = Str x" "log_field b f = Str y" "log_field c f = Str z"
    by auto
  then show ?thesis
  proof cases
    case 1
    with assms(4,5) show ?thesis by simp
  next
    case 2
    with assms(4,5) show ?thesis
      using str_lt_total [of x y] str_lt_total [of y z] str_lt_trans str_lt_irrefl
      by auto
  qed
qed

lemma js_le_total:
  assumes "has_value (log_field a f)" "has_value (log_field b f)"
  shows "\<not> js_lt (log_field b f) (log_field a f) \<or> \<not> js_lt (log_field a f) (log_field b f)"
  using js_lt_asym by blast

lemma log_cmp_le_asc: "log_cmp f ''asc'' a b \<le> 0 \<longleftrightarrow> \<not> js_lt (log_field b f) (log_field a f)"
  by (auto simp: log_cmp_def Let_def dest: js_lt_asym)

lemma log_cmp_le_desc:
  "d \<noteq> ''asc'' \<Longrightarrow> log_cmp f d a b \<le> 0 \<longleftrightarrow> \<not> js_lt (log_field a f) (log_field b f)"
  by (auto simp: log_cmp_def Let_def dest: js_lt_asym)

lemma mset_insert_by: "mset (insert_by cmp x xs) = add_mset x (mset xs)"
  by (induction xs) auto

lemma mset_js_sort: "mset (js_sort cmp xs) = mset xs"
  by (induction xs) (auto simp: js_sort_def mset_insert_by)

lemma set_insert_by: "set (insert_by cmp x xs) = insert x (set xs)"
  by (induction xs) auto

lemma set_js_sort: "set (js_sort cmp xs) = set xs"
  by (metis mset_js_sort set_mset_mset)

lemma sorted_insert_by:
  assumes total: "\<And>a b. a \<in> A \<Longrightarrow> b \<in> A \<Longrightarrow> R a b \<or> R b a"
    and trans: "\<And>a b c. a \<in> A \<Longrightarrow> b \<in> A \<Longrightarrow> c \<in> A \<Longrightarrow> R a b \<Longrightarrow> R b c \<Longrightarrow> R a c"
    and rel: "\<And>a b. cmp a b \<le> 0 \<longleftrightarrow> R a b"
    and "x \<in> A" "set xs \<subseteq> A" "sorted_wrt R xs"
  shows "sorted_wrt R (insert_by cmp x xs)"
  using assms(4-)
proof (induction xs)
  case Nil
  then show ?case by simp
next
  case (Cons y ys)
  show ?case
  proof (cases "cmp x y \<le> 0")
    case True
    then have xy: "R x y" by (simp add: rel)
    have "R x z" if "z \<in> set ys" for z
      using trans [of x y z] xy that Cons.prems by auto
    with True xy Cons.prems show ?thesis by auto
  next
    case False
    then have "R y x" using total [of x y] rel Cons.prems by auto
    moreover have "sorted_wrt R (insert_by cmp x ys)"
      using Cons by auto
    ultimately show ?thesis
      using False Cons.prems by (auto simp: set_insert_by)
  qed
qed

lemma sorted_js_sort:
  assumes total: "\<And>a b. a \<in> A \<Longrightarrow> b \<in> A \<Longrightarrow> R a b \<or> R b a"
    and trans: "\<And>a b c. a \<in> A \<Longrightarrow> b \<in> A \<Longrightarrow> c \<in> A \<Longrightarrow> R a b \<Longrightarrow> R b c \<Longrightarrow> R a c"
    and rel: "\<And>a b. cmp a b \<le> 0 \<longleftrightarrow> R a b"
    and "set xs \<subseteq> A"
  shows "sorted_wrt R (js_sort cmp xs)"
  using assms(4)
proof (induction xs)
  case Nil
  then show ?case by (simp add: js_sort_def)
next
  case (Cons x xs)
  have "sorted_wrt R (insert_by cmp x (js_sort cmp xs))"
    by (rule sorted_insert_by [where A = A, OF total trans rel])
       (use Cons in \<open>auto simp: set_js_sort\<close>)
  then show ?case by (simp add: js_sort_def)
qed

lemma ordered_js_sort_logs:
  assumes "list_all (\<lambda>a. has_value (log_field a f)) xs"
  shows "ordered_by f d (js_sort (log_cmp f d) xs)"
proof -
  let ?A = "{a. has_value (log_field a f)}"
  have sub: "set xs \<subseteq> ?A" using assms by (auto simp: list_all_iff)
  show ?thesis
  proof (cases "d = ''asc''")
    case True
    have "sorted_wrt (\<lambda>a b. \<not> js_lt (log_field b f) (log_field a f)) (js_sort (log_cmp f ''asc'') xs)"
      by (rule sorted_js_sort [where A = ?A, OF _ _ log_cmp_le_asc sub])
         (use js_lt_asym js_le_trans in \<open>blast+\<close>)
    with True show ?thesis by (simp add: ordered_by_def)
  next
    case False
    have "sorted_wrt (\<lambda>a b. \<not> js_lt (log_field a f) (log_field b f)) (js_sort (log_cmp f d) xs)"
      by (rule sorted_js_sort [where A = ?A, OF _ _ log_cmp_le_desc [OF False] sub])
         (use js_lt_asym js_le_trans in \<open>blast+\<close>)
    with False show ?thesis by (simp add: ordered_by_def)
  qed
qed

text \<open>
  C6, as stated, fails: a log whose timestamp is not a valid date compares equal to every
  other log, so the list with the dates 3, invalid, 1 is left as it is by an ascending sort
  on \<open>timestamp\<close>, although 3 comes before 1.
\<close>

theorem sortLogs_invalid_date_unordered:
  "filteredLogs (sortLogs ''timestamp'' (Some ''asc'') False
      (ActivityLogsManager_new\<lparr>filteredLogs :=
         [log_at (Some 3), log_at None, log_at (Some 1)]\<rparr>))
     = [log_at (Some 3), log_at None, log_at (Some 1)]
   \<and> \<not> ordered_by ''timestamp'' ''asc''
        (filteredLogs (sortLogs ''timestamp'' (Some ''asc'') False
           (ActivityLogsManager_new\<lparr>filteredLogs :=
              [log_at (Some 3), log_at None, log_at (Some 1)]\<rparr>)))"
  by (simp add: sortLogs_def ActivityLogsManager_new_def js_sort_def log_cmp_def log_field_def
        log_at_def ordered_by_def)

text \<open>
  C6, amended. For every list of logs, every field and every direction, \<open>sortLogs\<close> leaves
  \<open>filteredLogs\<close> a permutation of its previous contents and records the field and the
  direction used. When every log of the list has a value for the field (a valid date for
  \<open>timestamp\<close>, a string for the other fields), the list is ordered by that field:
  non-decreasing for \<open>asc\<close>, non-increasing otherwise, \<open>timestamp\<close> compared as dates. An
  explicit direction is the one used; with no explicit direction on the currently sorted
  field the direction is reversed (\<open>asc\<close> becomes \<open>desc\<close>, anything else becomes \<open>asc\<close>).
\<close>

theorem sortLogs_sorted_permutation:
  "mset (filteredLogs (sortLogs field direction upd s)) = mset (filteredLogs s)
   \<and> (list_all (\<lambda>a. has_value (log_field a field)) (filteredLogs s) \<longrightarrow>
        ordered_by field (sort_direction (logs_currentSort (sortLogs field direction upd s)))
          (filteredLogs (sortLogs field direction upd s)))
   \<and> sort_field (logs_currentSort (sortLogs field direction upd s)) = field
   \<and> (direction = Some d \<longrightarrow>
        sort_direction (logs_currentSort (sortLogs field direction upd s)) = d)
   \<and> (direction = None \<and> sort_field (logs_currentSort s) = field \<longrightarrow>
        sort_direction (logs_currentSort (sortLogs field direction upd s)) =
          (if sort_direction (logs_currentSort s) = ''asc'' then ''desc'' else ''asc''))"
  by (auto simp: sortLogs_def Let_def mset_js_sort ordered_js_sort_logs split: option.splits)

theorem sortLogs_sorted_permutation_witness:
  "list_all (\<lambda>a. has_value (log_field a ''timestamp''))
     (filteredLogs (ActivityLogsManager_new\<lparr>filteredLogs :=
        [log_at (Some 3), log_at (Some 1), log_at (Some 2)]\<rparr>))
   \<and> sort_field (logs_currentSort (ActivityLogsManager_new\<lparr>filteredLogs :=
        [log_at (Some 3), log_at (Some 1), log_at (Some 2)]\<rparr>)) = ''timestamp''
   \<and> filteredLogs (sortLogs ''timestamp'' None True
        (ActivityLogsManager_new\<lparr>filteredLogs :=
           [log_at (Some 3), log_at (Some 1), log_at (Some 2)]\<rparr>))
       = [log_at (Some 1), log_at (Some 2), log_at (Some 3)]
   \<and> sort_direction (logs_currentSort (sortLogs ''timestamp'' None True
        (ActivityLogsManager_new\<lparr>filteredLogs :=
           [log_at (Some 3), log_at (Some 1), log_at (Some 2)]\<rparr>))) = ''asc''
   \<and> ordered_by ''timestamp'' ''asc''
        (filteredLogs (sortLogs ''timestamp'' None True
           (ActivityLogsManager_new\<lparr>filteredLogs :=
              [log_at (Some 3), log_at (Some 1), log_at (Some 2)]\<rparr>)))"
proof -
  let ?s = "ActivityLogsManager_new\<lparr>filteredLogs :=
              [log_at (Some 3), log_at (Some 1), log_at (Some 2)]\<rparr>"
  have vals: "list_all (\<lambda>a. has_value (log_field a ''timestamp'')) (filteredLogs ?s)"
    by (simp add: ActivityLogsManager_new_def log_at_def log_field_def has_value_def)
  have cur: "sort_field (logs_currentSort ?s) = ''timestamp''"
    by (simp add: ActivityLogsManager_new_def)
  have dir: "sort_direction (logs_currentSort ?s) = ''desc''"
    by (simp add: ActivityLogsManager_new_def)
  have run: "filteredLogs (sortLogs ''timestamp'' None True ?s)
               = [log_at (Some 1), log_at (Some 2), log_at (Some 3)]"
    by (simp add: sortLogs_def ActivityLogsManager_new_def js_sort_def log_cmp_def
          log_field_def log_at_def)
  from sortLogs_sorted_permutation [of "''timestamp''" None True ?s] vals cur dir run
  show ?thesis by auto
qed

subsection \<open>ActivityLogsManager.applyFilters\<close>

lemma filter_ip_all:
  "list_all (\<lambda>l. log_ipAddress l \<noteq> None) xs \<Longrightarrow>
   filter_ip f xs = Inr (filter (\<lambda>l. case log_ipAddress l of None \<Rightarrow> False
                                  | Some ip \<Rightarrow> js_includes (toLowerCase ip) (toLowerCase f)) xs)"
  by (induction xs) auto

lemma within_day_iff:
  "within_day d t \<longleftrightarrow> date_ge t d \<and> date_lt t (map_option (\<lambda>x. x + day_ms) d)"
  by (auto simp: within_day_def date_ge_def date_lt_def split: option.splits)

lemma sortLogs_frame:
  "allLogs (sortLogs f d u s) = allLogs s"
  "logs_currentPage (sortLogs f d u s) = logs_currentPage s"
  "totalLogs (sortLogs f d u s) = totalLogs s"
  by (simp_all add: sortLogs_def Let_def)

lemma sortLogs_mset: "mset (filteredLogs (sortLogs f d u s)) = mset (filteredLogs s)"
  by (simp add: sortLogs_def Let_def mset_js_sort)

text \<open>
  Where the IP filter is not active, or every loaded log has an IP address, the filter is
  exact: \<open>filteredLogs\<close> holds precisely the logs of \<open>allLogs\<close> that satisfy every active
  filter (in the current sort order), \<open>allLogs\<close> is unchanged and the page is reset to 1.
\<close>

lemma Activity_applyFilters_exact:
  assumes "\<not> truthy (map_option trim (lf_ipAddress c))
           \<or> list_all (\<lambda>l. log_ipAddress l \<noteq> None) (allLogs s)"
  shows "\<exists>s1. Activity_applyFilters c s = Inr s1
           \<and> mset (filteredLogs s1) = mset (filter (log_satisfies c) (allLogs s))
           \<and> allLogs s1 = allLogs s
           \<and> logs_currentPage s1 = 1
           \<and> totalLogs s1 = length (filter (log_satisfies c) (allLogs s))"
proof -
  define P1 where
    "P1 = (\<lambda>l::log. case lf_date c of None \<Rightarrow> True | Some d \<Rightarrow> within_day d (log_timestamp l))"
  define P2 where
    "P2 = (\<lambda>l::log. case lf_ipAddress c of None \<Rightarrow> True
          | Some v \<Rightarrow>
              if trim v = [] then True
              else (case log_ipAddress l of None \<Rightarrow> False
                    | Some ip \<Rightarrow> js_includes (toLowerCase ip) (toLowerCase (trim v))))"
  define P3 where
    "P3 = (\<lambda>l::log. case lf_status c of None \<Rightarrow> True
          | Some v \<Rightarrow> if v = [] then True else log_status l = v)"
  have sat: "log_satisfies c = (\<lambda>l. P1 l \<and> P2 l \<and> P3 l)"
    by (simp add: log_satisfies_def P1_def P2_def P3_def fun_eq_iff)
  define f1 where "f1 = (case lf_date c of
               None \<Rightarrow> allLogs s
             | Some filterDate \<Rightarrow>
                 (let nextDay = map_option (\<lambda>t. t + day_ms) filterDate
                  in filter (\<lambda>l. date_ge (log_timestamp l) filterDate
                                   \<and> date_lt (log_timestamp l) nextDay) (allLogs s)))"
  have f1: "f1 = filter P1 (allLogs s)"
    by (simp add: f1_def P1_def within_day_iff Let_def split: option.splits)
  define ipf where "ipf = map_option trim (lf_ipAddress c)"
  have f2: "(if truthy ipf then filter_ip (or_default ipf []) f1 else Inr f1)
              = Inr (filter P2 f1)"
  proof (cases "truthy ipf")
    case True
    then obtain v where v: "lf_ipAddress c = Some v" "trim v \<noteq> []"
      by (auto simp: ipf_def truthy_def split: option.splits)
    from True assms have "list_all (\<lambda>l. log_ipAddress l \<noteq> None) f1"
      by (auto simp: ipf_def f1 list_all_iff)
    from filter_ip_all [OF this] True v show ?thesis
      by (simp add: ipf_def or_default_def P2_def)
  next
    case False
    then have "P2 = (\<lambda>l. True)"
      by (auto simp: ipf_def truthy_def P2_def fun_eq_iff split: option.splits)
    with False show ?thesis by simp
  qed
  have f3: "(if truthy (lf_status c)
             then filter (\<lambda>l. Some (log_status l) = lf_status c) xs else xs)
              = filter P3 xs" for xs
    by (auto simp: truthy_def P3_def split: option.splits intro: filter_cong)
  have unf: "Activity_applyFilters c s =
     (case (if truthy ipf then filter_ip (or_default ipf []) f1 else Inr f1) of
        Inl e \<Rightarrow> Inl e
      | Inr f2 \<Rightarrow>
          Inr (sortLogs (sort_field (logs_currentSort s))
                 (Some (sort_direction (logs_currentSort s))) False
                 (s\<lparr>filteredLogs := filter P3 f2, totalLogs := length (filter P3 f2),
                    logs_currentPage := 1\<rparr>)))"
    by (simp add: Activity_applyFilters_def Let_def f1_def ipf_def f3 split: sum.splits)
  have res: "Activity_applyFilters c s =
     Inr (sortLogs (sort_field (logs_currentSort s))
            (Some (sort_direction (logs_currentSort s))) False
            (s\<lparr>filteredLogs := filter P3 (filter P2 (filter P1 (allLogs s))),
               totalLogs := length (filter P3 (filter P2 (filter P1 (allLogs s)))),
               logs_currentPage := 1\<rparr>))"
    unfolding unf f2 by (simp add: f1)
  have comp: "filter P3 (filter P2 (filter P1 xs)) = filter (log_satisfies c) xs" for xs
    by (auto simp: sat intro: filter_cong)
  show ?thesis
    unfolding res comp by (simp add: sortLogs_frame sortLogs_mset)
qed

text \<open>
  Seen from \<open>loadActivityLogs\<close>: with \<open>10.\<close> in the IP control, a login history in which one
  entry has no IP address ends in the \<open>catch\<close> block with no log at all and the
  \<open>No Activity Found\<close> row, although another entry matches the filter.
\<close>

lemma loadActivityLogs_missing_ip_error_state:
  "loadActivityLogs True (ip_filter_only ''10.'') DashIncomplete
     (HistLogs [entry_with_ip ''10.0.0.7'', entry_without_ip]) ActivityLogsManager_new
     loading_page
   = Inr \<lparr>requests = [dashboardRequest, historyRequest], errorState = Some TypeError,
          manager = ActivityLogsManager_new,
          page_after = \<lparr>logsTableBody = NoActivityRow,
                         logsCount = CountText ''Failed to load logs''\<rparr>\<rparr>"
  by (simp add: loadActivityLogs_def load_history_def history_loaded_def load_failed_def
       applyFilters_display_def displayLogs_def showErrorState_def showLoadingState_def
       js_slice_def Activity_applyFilters_def ip_filter_only_def ActivityLogsManager_new_def
       history_log_def entry_with_ip_def entry_without_ip_def js_or_def truthy_def trim_def
       is_space_def or_default_def Let_def sortLogs_def js_sort_def)

text \<open>
  C7 does not hold of the code. \<open>loadActivityLogs\<close> maps a history entry that has neither
  \<open>ip\<close> nor \<open>ipAddress\<close> to a log whose IP address is \<open>undefined\<close>; with a text in the IP
  control, \<open>applyFilters\<close> then throws a \<open>TypeError\<close> at \<open>log.ipAddress.toLowerCase()\<close>
  and does not set \<open>filteredLogs\<close>, whereas the logs that satisfy the filter are the one
  with the address \<open>10.0.0.7\<close>.
\<close>

theorem Activity_applyFilters_missing_ip_throws:
  "Activity_applyFilters (ip_filter_only ''10.'')
     (ActivityLogsManager_new\<lparr>allLogs :=
        map_index history_log 0 [entry_with_ip ''10.0.0.7'', entry_without_ip]\<rparr>)
     = Inl TypeError
   \<and> filter (log_satisfies (ip_filter_only ''10.''))
        (map_index history_log 0 [entry_with_ip ''10.0.0.7'', entry_without_ip])
      = [history_log 0 (entry_with_ip ''10.0.0.7'')]"
  by (simp add: Activity_applyFilters_def ip_filter_only_def ActivityLogsManager_new_def
       history_log_def entry_with_ip_def entry_without_ip_def js_or_def truthy_def trim_def
       is_space_def or_default_def Let_def log_satisfies_def toLowerCase_def lower_char_def)

subsection \<open>Requests issued after a failure\<close>

lemma applyFilters_no_logs:
  "\<exists>s1. Activity_applyFilters c (s\<lparr>allLogs := []\<rparr>) = Inr s1 \<and> allLogs s1 = []
          \<and> filteredLogs s1 = []"
  by (simp add: Activity_applyFilters_def Let_def sortLogs_def js_sort_def split: option.splits)

lemma displayLogs_no_logs:
  "filteredLogs s = [] \<Longrightarrow> displayLogs s page = page\<lparr>logsTableBody := NoActivityRow\<rparr>"
  by (simp add: displayLogs_def js_slice_def Let_def)

text \<open>
  The \<open>catch\<close> block always returns, and what it leaves on the page is the
  \<open>No Activity Found\<close> row under the count text \<open>Failed to load logs\<close>: the error row
  with its Retry button is overwritten before the method returns.
\<close>

lemma load_failed_returns:
  "\<exists>s1. load_failed c e s page =
          Inr (Some e, s1, \<lparr>logsTableBody = NoActivityRow,
                             logsCount = CountText ''Failed to load logs''\<rparr>)
        \<and> allLogs s1 = []"
  using applyFilters_no_logs [of c s]
  by (auto simp: load_failed_def applyFilters_display_def displayLogs_no_logs
        showErrorState_def)

lemma history_loaded_returns: "\<exists>err s1 page1. history_loaded c es s page = Inr (err, s1, page1)"
proof (cases "applyFilters_display c (s\<lparr>allLogs := map_index history_log 0 es\<rparr>) page")
  case (Inl e)
  with load_failed_returns [of c e "s\<lparr>allLogs := map_index history_log 0 es\<rparr>" page]
  show ?thesis by (auto simp: history_loaded_def Let_def)
next
  case (Inr res)
  then show ?thesis by (cases res) (simp add: history_loaded_def Let_def)
qed

lemma load_history_failed:
  "hist_failed hist \<Longrightarrow>
   \<exists>e s1. load_history c hist s page =
            Inr (Some e, s1, \<lparr>logsTableBody = NoActivityRow,
                               logsCount = CountText ''Failed to load logs''\<rparr>)
          \<and> allLogs s1 = []"
  using load_failed_returns [of c _ s page]
  by (cases hist) (simp_all add: load_history_def hist_failed_def, blast+)

lemma load_history_returns: "\<exists>err s1 page1. load_history c hist s page = Inr (err, s1, page1)"
proof (cases "hist_failed hist")
  case True
  from load_history_failed [OF this, of c s page] show ?thesis by blast
next
  case False
  then show ?thesis
    using history_loaded_returns [of c _ s page]
    by (cases hist) (simp_all add: load_history_def hist_failed_def)
qed

lemma loadActivityLogs_requests:
  "\<exists>r. loadActivityLogs showLoading c dash hist s page = Inr r
      \<and> (requests r = [dashboardRequest]
         \<or> requests r = [dashboardRequest, historyRequest])"
proof -
  have fb: "\<exists>err s1 page1. load_history c hist s0 page0 = Inr (err, s1, page1)" for s0 page0
    by (rule load_history_returns)
  show ?thesis
  proof (cases dash)
    case (DashComprehensive logs)
    let ?page0 = "if showLoading then showLoadingState page else page"
    show ?thesis
    proof (cases "applyFilters_display c (s\<lparr>allLogs := logs\<rparr>) ?page0")
      case (Inl e)
      with DashComprehensive fb [of "s\<lparr>allLogs := logs\<rparr>" ?page0] show ?thesis
        by (auto simp: loadActivityLogs_def Let_def)
    next
      case (Inr res)
      with DashComprehensive show ?thesis
        by (cases res) (simp add: loadActivityLogs_def Let_def)
    qed
  qed (use fb [of s "if showLoading then showLoadingState page else page"]
       in \<open>auto simp: loadActivityLogs_def Let_def\<close>)
qed

lemma loadActivityLogs_dash_failed:
  assumes "dash_failed dash"
  shows "\<exists>r. loadActivityLogs showLoading c dash hist s page = Inr r
             \<and> requests r = [dashboardRequest, historyRequest]"
  using assms
    load_history_returns [of c hist s "if showLoading then showLoadingState page else page"]
  by (cases dash) (auto simp: loadActivityLogs_def Let_def dash_failed_def)

lemma loadActivityLogs_both_failed:
  assumes "dash_failed dash" "hist_failed hist"
  shows "\<exists>e s1. loadActivityLogs showLoading c dash hist s page =
           Inr \<lparr>requests = [dashboardRequest, historyRequest],
                errorState = Some e, manager = s1,
                page_after = \<lparr>logsTableBody = NoActivityRow,
                               logsCount = CountText ''Failed to load logs''\<rparr>\<rparr>
           \<and> allLogs s1 = []"
  using assms(1)
    load_history_failed [OF assms(2), of c s
      "if showLoading then showLoadingState page else page"]
  by (cases dash) (auto simp: loadActivityLogs_def Let_def dash_failed_def)

lemma checkAPIStatus_cases:
  "checkAPIStatus health test ind =
     (if probe_ok health
      then ([healthRequest], set_indicators ''status-indicator online'' ind)
      else if fallback_failed test
      then ([healthRequest, testRequest], set_indicators ''status-indicator offline'' ind)
      else ([healthRequest, testRequest], set_indicators ''status-indicator online'' ind))"
  by (simp add: checkAPIStatus_def fallback_failed_def split: probe.splits)

lemma requests_distinct:
  "distinct [healthRequest, testRequest]" "distinct [dashboardRequest, historyRequest]"
  by (simp_all add: healthRequest_def testRequest_def dashboardRequest_def historyRequest_def)

text \<open>
  C8, as stated, fails: when the health request fails (status 503), \<open>checkAPIStatus\<close> issues
  on its own a second request, \<open>HEAD /api/login-history\<close>; and when the dashboard request
  fails (status 500), \<open>loadActivityLogs\<close> issues on its own a second request,
  \<open>GET /api/login-history\<close>.
\<close>

theorem failed_fetch_fallback_request:
  "\<not> probe_ok (ProbeStatus 503)
   \<and> fst (checkAPIStatus (ProbeStatus 503) (ProbeStatus 200) page_indicators)
       = [healthRequest, testRequest]
   \<and> dash_failed (DashNotOk 500)
   \<and> loadActivityLogs True (ip_filter_only []) (DashNotOk 500) (HistLogs [])
         ActivityLogsManager_new loading_page
       = Inr \<lparr>requests = [dashboardRequest, historyRequest], errorState = None,
              manager = ActivityLogsManager_new,
              page_after = \<lparr>logsTableBody = NoActivityRow,
                             logsCount = CountText ''Loading...''\<rparr>\<rparr>"
  by (simp add: probe_ok_def checkAPIStatus_def dash_failed_def loadActivityLogs_def
       load_history_def history_loaded_def applyFilters_display_def displayLogs_def
       showLoadingState_def loading_page_def js_slice_def Activity_applyFilters_def
       ip_filter_only_def ActivityLogsManager_new_def truthy_def trim_def Let_def
       sortLogs_def js_sort_def)

text \<open>
  C8, amended. In \<open>checkAPIStatus\<close> and \<open>loadActivityLogs\<close>, failure handling never
  repeats a request and has no back-off, but makes one automatic fallback request to
  another endpoint and nothing after it.
  \<^item> \<open>checkAPIStatus\<close> issues the health request alone when it succeeds (indicators
    online). When it fails it issues exactly one \<open>HEAD /api/login-history\<close>: the indicators
    are set to offline when that one throws or answers 404, to online otherwise, and no
    further request is issued.
  \<^item> \<open>loadActivityLogs\<close> never raises. It issues the dashboard request and then either
    nothing or exactly one \<open>GET /api/login-history\<close>; the latter whenever the dashboard
    request failed or its data was incomplete or not processed. When the history request
    fails too, it issues nothing more: the error is handed to \<open>showErrorState\<close>, \<open>allLogs\<close>
    is emptied and the table is redrawn, which leaves the count text
    \<open>Failed to load logs\<close> and the \<open>No Activity Found\<close> row (the error row with its Retry
    button is overwritten within the same \<open>catch\<close> block).
  No call issues the same request twice.
\<close>

theorem failure_handling_requests:
  "checkAPIStatus health test ind =
     (if probe_ok health
      then ([healthRequest], set_indicators ''status-indicator online'' ind)
      else if fallback_failed test
      then ([healthRequest, testRequest], set_indicators ''status-indicator offline'' ind)
      else ([healthRequest, testRequest], set_indicators ''status-indicator online'' ind))
   \<and> distinct (fst (checkAPIStatus health test ind))
   \<and> (\<exists>r. loadActivityLogs showLoading c dash hist s page = Inr r
        \<and> (requests r = [dashboardRequest] \<or> requests r = [dashboardRequest, historyRequest])
        \<and> distinct (requests r)
        \<and> (dash_failed dash \<longrightarrow> requests r = [dashboardRequest, historyRequest])
        \<and> (dash_failed dash \<and> hist_failed hist \<longrightarrow>
             errorState r \<noteq> None
             \<and> allLogs (manager r) = []
             \<and> page_after r = \<lparr>logsTableBody = NoActivityRow,
                                 logsCount = CountText ''Failed to load logs''\<rparr>))"
proof -
  from loadActivityLogs_requests [of showLoading c dash hist s page]
  obtain r where r: "loadActivityLogs showLoading c dash hist s page = Inr r"
    and rq: "requests r = [dashboardRequest] \<or> requests r = [dashboardRequest, historyRequest]"
    by blast
  from rq have d: "distinct (requests r)"
    using requests_distinct(2) by auto
  have one: "requests r = [dashboardRequest, historyRequest]" if "dash_failed dash"
    using loadActivityLogs_dash_failed [OF that, of showLoading c hist s page] r by auto
  have both: "errorState r \<noteq> None \<and> allLogs (manager r) = []
              \<and> page_after r = \<lparr>logsTableBody = NoActivityRow,
                                  logsCount = CountText ''Failed to load logs''\<rparr>"
    if "dash_failed dash" "hist_failed hist"
    using loadActivityLogs_both_failed [OF that, of showLoading c s page] r by auto
  have "distinct (fst (checkAPIStatus health test ind))"
    using requests_distinct(1) by (simp add: checkAPIStatus_cases)
  with r rq d one both show ?thesis
    using checkAPIStatus_cases [of health test ind] by blast
qed

theorem failure_handling_requests_witness:
  "dash_failed (DashNotOk 500) \<and> hist_failed (HistRejected ''Failed to fetch'')
   \<and> loadActivityLogs True (ip_filter_only []) (DashNotOk 500)
        (HistRejected ''Failed to fetch'') ActivityLogsManager_new loading_page
       = Inr \<lparr>requests = [dashboardRequest, historyRequest],
              errorState = Some (Error ''Failed to fetch''), manager = ActivityLogsManager_new,
              page_after = \<lparr>logsTableBody = NoActivityRow,
                             logsCount = CountText ''Failed to load logs''\<rparr>\<rparr>
   \<and> fallback_failed ProbeRejected
   \<and> checkAPIStatus (ProbeStatus 503) ProbeRejected page_indicators
       = ([healthRequest, testRequest],
          \<lparr>apiStatus = Some ''status-indicator offline'',
           dbStatus = Some ''status-indicator offline''\<rparr>)
   \<and> distinct (fst (checkAPIStatus (ProbeStatus 503) ProbeRejected page_indicators))"
proof -
  have e: "loadActivityLogs True (ip_filter_only []) (DashNotOk 500)
             (HistRejected ''Failed to fetch'') ActivityLogsManager_new loading_page
     = Inr \<lparr>requests = [dashboardRequest, historyRequest],
            errorState = Some (Error ''Failed to fetch''), manager = ActivityLogsManager_new,
            page_after = \<lparr>logsTableBody = NoActivityRow,
                           logsCount = CountText ''Failed to load logs''\<rparr>\<rparr>"
    by (simp add: loadActivityLogs_def load_history_def load_failed_def
         applyFilters_display_def displayLogs_def showErrorState_def js_slice_def
         Activity_applyFilters_def ip_filter_only_def ActivityLogsManager_new_def
         truthy_def trim_def or_default_def Let_def sortLogs_def js_sort_def)
  have f: "dash_failed (DashNotOk 500)" "hist_failed (HistRejected ''Failed to fetch'')"
    by (simp_all add: dash_failed_def hist_failed_def)
  have p: "\<not> probe_ok (ProbeStatus 503)" "fallback_failed ProbeRejected"
    by (simp_all add: probe_ok_def fallback_failed_def)
  have i: "set_indicators ''status-indicator offline'' page_indicators
             = \<lparr>apiStatus = Some ''status-indicator offline'',
                dbStatus = Some ''status-indicator offline''\<rparr>"
    by (simp add: set_indicators_def page_indicators_def setElementText_def)
  from failure_handling_requests [of "ProbeStatus 503" ProbeRejected page_indicators
         True "ip_filter_only []" "DashNotOk 500" "HistRejected ''Failed to fetch''"
         ActivityLogsManager_new loading_page] e f p i
  show ?thesis by auto
qed

subsection \<open>Login lockout\<close>

lemma handleLoginFailure_count: "loginAttempts (handleLoginFailure now a) = loginAttempts a + 1"
  by (simp add: handleLoginFailure_def incrementLoginAttempts_def lockAccount_def Let_def)

lemma handleLoginFailure_item:
  "attempts_item (handleLoginFailure now a) =
     Some \<lparr>att_count = (if loginAttempts a + 1 \<ge> MAX_LOGIN_ATTEMPTS then MAX_LOGIN_ATTEMPTS
                         else loginAttempts a + 1), att_timestamp = now\<rparr>"
  by (simp add: handleLoginFailure_def incrementLoginAttempts_def lockAccount_def Let_def)

lemma handleLogin_failed:
  "\<not> isLoggingIn a \<Longrightarrow> \<not> isLocked a \<Longrightarrow>
   handleLogin now True failed_response a
     = ([loginRequest],
        (handleLoginFailure now (a\<lparr>isLoggingIn := True\<rparr>))\<lparr>isLoggingIn := False\<rparr>)"
  by (simp add: handleLogin_def failed_response_def truthy_def Let_def)

text \<open>A locked object issues no authentication request, at whatever time it is asked.\<close>

lemma handleLogin_locked: "isLocked a \<Longrightarrow> handleLogin now valid outcome a = ([], a)"
  by (simp add: handleLogin_def)

lemma failed_logins_count:
  "\<not> isLoggingIn a \<Longrightarrow>
   loginAttempts (failed_logins ts a)
     = min (max MAX_LOGIN_ATTEMPTS (loginAttempts a)) (loginAttempts a + length ts)
   \<and> \<not> isLoggingIn (failed_logins ts a)"
proof (induction ts arbitrary: a)
  case Nil
  then show ?case by simp
next
  case (Cons t ts)
  show ?case
  proof (cases "isLocked a")
    case True
    with Cons show ?thesis by (simp add: handleLogin_locked isLocked_def)
  next
    case False
    let ?a1 = "snd (handleLogin t True failed_response a)"
    have a1: "loginAttempts ?a1 = loginAttempts a + 1" "\<not> isLoggingIn ?a1"
      using False Cons.prems
      by (simp_all add: handleLogin_failed handleLoginFailure_count)
    from Cons.IH [OF a1(2)] a1 False show ?thesis
      by (auto simp: isLocked_def)
  qed
qed

text \<open>After \<open>MAX_LOGIN_ATTEMPTS\<close> failed logins in a row the object is locked.\<close>

lemma locked_after_max_failures:
  assumes "\<not> isLoggingIn a" and "length ts \<ge> MAX_LOGIN_ATTEMPTS"
  shows "isLocked (failed_logins ts a)"
  using failed_logins_count [OF assms(1), of ts] assms(2) by (simp add: isLocked_def)

text \<open>
  \<open>getLoginAttempts\<close> reports the stored count until more than \<open>LOCKOUT_DURATION\<close> has
  passed since the stored time, and 0 from then on; so an object constructed (the page
  loaded) after that time is not locked, and one constructed before it is.
\<close>

lemma getLoginAttempts_expired:
  "now - att_timestamp d > LOCKOUT_DURATION \<Longrightarrow> getLoginAttempts now (Some d) = 0"
  by (simp add: getLoginAttempts_def)

lemma getLoginAttempts_within:
  "now - att_timestamp d \<le> LOCKOUT_DURATION \<Longrightarrow> getLoginAttempts now (Some d) = att_count d"
  by (simp add: getLoginAttempts_def)

lemma reload_after_lockout:
  "now - att_timestamp d > LOCKOUT_DURATION \<Longrightarrow>
   \<not> isLocked (TeamSheldonAdmin_new now ls (Some d))
   \<and> fst (handleLogin now True outcome (TeamSheldonAdmin_new now ls (Some d))) = [loginRequest]"
  by (simp add: TeamSheldonAdmin_new_def getLoginAttempts_def isLocked_def
        MAX_LOGIN_ATTEMPTS_def handleLogin_def Let_def)

lemma reload_within_lockout:
  "now - att_timestamp d \<le> LOCKOUT_DURATION \<Longrightarrow> att_count d \<ge> MAX_LOGIN_ATTEMPTS \<Longrightarrow>
   isLocked (TeamSheldonAdmin_new now ls (Some d))"
  by (simp add: TeamSheldonAdmin_new_def getLoginAttempts_def isLocked_def)

text \<open>A successful login resets the counter and removes the stored attempts.\<close>

lemma handleLoginSuccess_resets:
  "loginAttempts (handleLoginSuccess ud a) = 0"
  "attempts_item (handleLoginSuccess ud a) = None"
  by (simp_all add: handleLoginSuccess_def resetLoginAttempts_def Let_def)

text \<open>
  C10 does not hold of the code. The object that recorded five failed logins (the last at
  time 5000) is locked; at time 1000000, more than \<open>LOCKOUT_DURATION\<close> after the last
  failure, \<open>getLoginAttempts\<close> reports 0 for the stored attempts, but \<open>handleLogin\<close> with
  valid credentials still returns without issuing the authentication request: \<open>isLocked\<close>
  reads the counter held by the object, which only the constructor takes from
  \<open>getLoginAttempts\<close>.
\<close>

theorem lockout_outlives_duration:
  "isLocked (failed_logins [1000, 2000, 3000, 4000, 5000]
      (TeamSheldonAdmin_new 0 Map.empty None))
   \<and> 5000 + LOCKOUT_DURATION < 1000000
   \<and> getLoginAttempts 1000000 (attempts_item (failed_logins [1000, 2000, 3000, 4000, 5000]
        (TeamSheldonAdmin_new 0 Map.empty None))) = 0
   \<and> fst (handleLogin 1000000 True failed_response
        (failed_logins [1000, 2000, 3000, 4000, 5000]
          (TeamSheldonAdmin_new 0 Map.empty None))) = []"
  by (simp add: TeamSheldonAdmin_new_def getLoginAttempts_def LOCKOUT_DURATION_def
       handleLogin_def isLocked_def MAX_LOGIN_ATTEMPTS_def failed_response_def truthy_def
       handleLoginFailure_def incrementLoginAttempts_def lockAccount_def Let_def)

subsection \<open>Session token keys\<close>

text \<open>
  \<open>handleLoginSuccess\<close> leaves the token of the response under both keys, or removes both
  when the response has none; \<open>logout\<close> removes both. Each holds from any storage.
\<close>

lemma handleLoginSuccess_tokens:
  "getItem (localStorage (handleLoginSuccess ud a)) ''adminToken''
     = (let token = js_or (js_or (ud_token ud) (ud_access_token ud)) (ud_authToken ud)
        in if truthy token then token else None)"
  "getItem (localStorage (handleLoginSuccess ud a)) ''authToken''
     = (let token = js_or (js_or (ud_token ud) (ud_access_token ud)) (ud_authToken ud)
        in if truthy token then token else None)"
  by (auto simp: handleLoginSuccess_def Let_def getItem_def setItem_def removeItem_def
        truthy_def or_default_def split: option.splits)

lemma handleLoginSuccess_lockstep: "lockstep (localStorage (handleLoginSuccess ud a))"
  by (simp add: lockstep_def handleLoginSuccess_tokens)

lemma logout_tokens:
  "getItem (localStorage (logout a)) ''adminToken'' = None"
  "getItem (localStorage (logout a)) ''authToken'' = None"
  by (simp_all add: logout_def getItem_def removeItem_def)

lemma Dashboard_performLogout_lockstep: "lockstep (Dashboard_performLogout ls)"
  by (simp add: lockstep_def Dashboard_performLogout_def getItem_def removeItem_def)

text \<open>
  C4 does not hold of the code. After a login that stored the token \<open>tok\<close> under both keys,
  the logout of the activity page (\<open>performLogout\<close> in Activity.js) removes \<open>authToken\<close>
  only: \<open>adminToken\<close> still holds the token, so exactly one of the two keys holds it.
\<close>

theorem Activity_performLogout_breaks_lockstep:
  "getItem (Activity_performLogout (localStorage (handleLoginSuccess (token_only ''tok'')
        (TeamSheldonAdmin_new 0 Map.empty None)))) ''adminToken'' = Some ''tok''
   \<and> getItem (Activity_performLogout (localStorage (handleLoginSuccess (token_only ''tok'')
        (TeamSheldonAdmin_new 0 Map.empty None)))) ''authToken'' = None
   \<and> \<not> lockstep (Activity_performLogout (localStorage (handleLoginSuccess (token_only ''tok'')
        (TeamSheldonAdmin_new 0 Map.empty None))))"
  by (simp add: Activity_performLogout_def handleLoginSuccess_def token_only_def
        TeamSheldonAdmin_new_def resetLoginAttempts_def getItem_def setItem_def removeItem_def
        js_or_def truthy_def or_default_def Let_def lockstep_def)

text \<open>The analytics page does the same when the token is not verified.\<close>

lemma Analytics_auth_failed_keeps_adminToken:
  "getItem ls ''adminToken'' = Some t \<Longrightarrow>
   getItem (Analytics_auth_failed ls) ''adminToken'' = Some t
   \<and> getItem (Analytics_auth_failed ls) ''authToken'' = None"
  by (simp add: Analytics_auth_failed_def getItem_def removeItem_def)

end
